theory Spec2Isabelle
  imports Main "HOL-Library.Word"
begin

unbundle bit_operations_syntax

section \<open>Bytes, Python values and exceptions\<close>

type_synonym byte = "8 word"
type_synonym bytes = "byte list"

text \<open>
  The exceptions the two scripts can meet. \<open>LibraryError\<close> stands for any other
  exception class raised inside \<open>base64\<close>, \<open>cbor2\<close>, \<open>json\<close> or
  \<open>cryptography\<close>; all of them derive from \<open>Exception\<close>.
\<close>

datatype exn =
    TypeError
  | KeyError
  | IndexError
  | AttributeError
  | ValueError
  | OverflowError
  | StructError
  | InvalidSignature
  | ExtensionNotFound
  | LibraryError string

definition bind_exn :: "exn + 'a \<Rightarrow> ('a \<Rightarrow> exn + 'b) \<Rightarrow> exn + 'b" where
  "bind_exn m f = (case m of Inl e \<Rightarrow> Inl e | Inr x \<Rightarrow> f x)"

lemma bind_exn_Inl [simp]: "bind_exn (Inl e) f = Inl e"
  by (simp add: bind_exn_def)

lemma bind_exn_Inr [simp]: "bind_exn (Inr x) f = f x"
  by (simp add: bind_exn_def)

section \<open>Public Key Codec: \<open>build_der_public_key\<close> (verify_attestation.py, lines 285-318)\<close>

text \<open>
  \<open>bytes([...])\<close> raises \<open>ValueError\<close> for an element outside \<open>range(0, 256)\<close>.
  \<open>der_len\<close> is only called on results of \<open>len\<close>, so its argument is a natural
  number; the only element that can leave the range is \<open>length >> 8\<close>.
\<close>

definition der_len :: "nat \<Rightarrow> exn + bytes" where
  "der_len n =
     (if n < 128 then Inr [of_nat n]
      else if n < 256 then Inr [0x81, of_nat n]
      else if drop_bit 8 n < 256 then Inr [0x82, of_nat (drop_bit 8 n), of_nat (n AND 0xff)]
      else Inl ValueError)"

definition ec_public_key_oid :: bytes where
  "ec_public_key_oid = [0x2a, 0x86, 0x48, 0xce, 0x3d, 0x02, 0x01]"

definition prime256v1_oid :: bytes where
  "prime256v1_oid = [0x2a, 0x86, 0x48, 0xce, 0x3d, 0x03, 0x01, 0x07]"

definition build_der_public_key :: "bytes \<Rightarrow> bytes \<Rightarrow> exn + bytes" where
  "build_der_public_key x y =
     (let point = [0x04] @ x @ y in
      bind_exn (der_len (length ec_public_key_oid + length prime256v1_oid + 4)) (\<lambda>l1.
      bind_exn (der_len (length ec_public_key_oid)) (\<lambda>l2.
      bind_exn (der_len (length prime256v1_oid)) (\<lambda>l3.
      let algo_seq = [0x30] @ l1 @ [0x06] @ l2 @ ec_public_key_oid
                       @ [0x06] @ l3 @ prime256v1_oid in
      bind_exn (der_len (length point + 1)) (\<lambda>l4.
      let bit_string = [0x03] @ l4 @ [0x00] @ point;
          inner = algo_seq @ bit_string in
      bind_exn (der_len (length inner)) (\<lambda>l5.
      Inr ([0x30] @ l5 @ inner)))))))"

text \<open>
  \<open>p256_spki_header\<close> is the fixed prefix of the DER encoding of a
  SubjectPublicKeyInfo for an uncompressed P-256 point (RFC 5480): outer SEQUENCE of
  89 bytes, algorithm identifier SEQUENCE of 19 bytes holding the OIDs
  1.2.840.10045.2.1 and 1.2.840.10045.3.1.7, BIT STRING of 66 bytes with zero unused
  bits, and the point marker \<open>0x04\<close>.
\<close>

definition p256_spki_header :: bytes where
  "p256_spki_header =
     [0x30, 0x59,
      0x30, 0x13,
      0x06, 0x07, 0x2a, 0x86, 0x48, 0xce, 0x3d, 0x02, 0x01,
      0x06, 0x08, 0x2a, 0x86, 0x48, 0xce, 0x3d, 0x03, 0x01, 0x07,
      0x03, 0x42, 0x00,
      0x04]"

section \<open>ASN.1 Nonce Extractor: \<open>extract_nonce_from_extension\<close> (verify_attestation.py, lines 98-136)\<close>

text \<open>\<open>int.from_bytes(bs, 'big')\<close>; it is 0 on the empty string.\<close>

definition int_from_bytes_big :: "bytes \<Rightarrow> nat" where
  "int_from_bytes_big bs = foldl (\<lambda>acc x. acc * 256 + unat x) 0 bs"

text \<open>
  One pass of the body of the \<open>while\<close> loop up to \<open>i += length\<close> (lines 105-122):
  reading the tag, the length field (short form, or long form with \<open>n\<close> length bytes)
  and the value at index \<open>i\<close>. \<open>None\<close> is the \<open>break\<close> of the source, which it
  takes when the tag, the length byte, the length bytes or the value would lie past the
  end of \<open>b\<close>; every read \<open>b[i]\<close> is behind such a test. Otherwise the result is the
  tag, the value \<open>b[i:i+length]\<close> and the index after the value.
\<close>

definition read_tlv :: "bytes \<Rightarrow> nat \<Rightarrow> (byte \<times> bytes \<times> nat) option" where
  "read_tlv b i =
     (if i \<ge> length b then None
      else let tag = b ! i; i1 = i + 1 in
      if i1 \<ge> length b then None
      else let len0 = b ! i1; i2 = i1 + 1 in
      if len0 AND 0x80 \<noteq> 0 then
        (let n = unat (len0 AND 0x7F) in
         if i2 + n > length b then None
         else let len = int_from_bytes_big (take n (drop i2 b)); i3 = i2 + n in
         if i3 + len > length b then None
         else Some (tag, take len (drop i3 b), i3 + len))
      else
        (let len = unat len0 in
         if i2 + len > length b then None
         else Some (tag, take len (drop i2 b), i2 + len)))"

lemma read_tlv_advances:
  "read_tlv b i = Some (tag, v, j) \<Longrightarrow> i < j \<and> j \<le> length b"
  by (auto simp: read_tlv_def Let_def split: if_splits)

text \<open>
  \<open>find_octet32\<close> with its loop. \<open>find_octet32_loop b depth i\<close> is the \<open>while\<close> loop
  from index \<open>i\<close> on; leaving the loop, by its condition or by \<open>break\<close>, returns
  \<open>None\<close>. \<open>if result:\<close> is the truth value of a bytes object: not \<open>None\<close> and not
  empty.
\<close>

function find_octet32 :: "bytes \<Rightarrow> nat \<Rightarrow> bytes option"
  and find_octet32_loop :: "bytes \<Rightarrow> nat \<Rightarrow> nat \<Rightarrow> bytes option" where
  "find_octet32 b depth =
     (if depth > 10 \<or> length b < 2 then None else find_octet32_loop b depth 0)"
| "find_octet32_loop b depth i =
     (if \<not> i < length b then None
      else case read_tlv b i of
        None \<Rightarrow> None
      | Some (tag, val, i') \<Rightarrow>
          if tag = 0x04 \<and> length val = 32 then Some val
          else if tag AND 0x20 \<noteq> 0 \<or> tag \<in> {0x30, 0x31, 0x04} then
            (case find_octet32 val (depth + 1) of
               None \<Rightarrow> find_octet32_loop b depth i'
             | Some r \<Rightarrow> if r \<noteq> [] then Some r else find_octet32_loop b depth i')
          else find_octet32_loop b depth i')"
  by pat_completeness auto
termination
proof (relation "measures
    [\<lambda>a. case a of Inl (b, d) \<Rightarrow> (if d > 10 then 0 else 2 * (11 - d) + 2)
                  | Inr (b, d, i) \<Rightarrow> 2 * (11 - d) + 1,
     \<lambda>a. case a of Inl (b, d) \<Rightarrow> 0 | Inr (b, d, i) \<Rightarrow> length b - i]", goal_cases)
  case 1 show ?case by simp
next
  case 2 then show ?case by auto
next
  case 3 then show ?case by auto
next
  case 4 then show ?case by (auto dest!: read_tlv_advances)
next
  case 5 then show ?case by (auto dest!: read_tlv_advances)
next
  case 6 then show ?case by (auto dest!: read_tlv_advances)
qed

declare find_octet32.simps [simp del] find_octet32_loop.simps [simp del]

definition extract_nonce_from_extension :: "bytes \<Rightarrow> exn + bytes" where
  "extract_nonce_from_extension payload =
     (case find_octet32 payload 0 of
        None \<Rightarrow> Inl ValueError
      | Some result \<Rightarrow> Inr result)"

text \<open>
  Test data for the extractor: a 32-byte OCTET STRING is \<open>[0x04, 0x20] @ v\<close>, and
  \<open>wrap_sequence k b\<close> puts \<open>k\<close> SEQUENCE layers (tag \<open>0x30\<close>, short-form length)
  around \<open>b\<close>. Around a 34-byte OCTET STRING ten layers reach 54 bytes, so the short
  form is the DER length of every layer.
\<close>

fun wrap_sequence :: "nat \<Rightarrow> bytes \<Rightarrow> bytes" where
  "wrap_sequence 0 b = b"
| "wrap_sequence (Suc k) b = [0x30, of_nat (length (wrap_sequence k b))] @ wrap_sequence k b"


subsection \<open>The scan in the words of the spec\<close>







section \<open>Python values and the library interface\<close>

text \<open>
  The objects that \<open>cbor2.loads\<close> and \<open>json.load\<close> hand to the scripts. \<open>PDict\<close>
  lists the items of a dictionary, whose keys are pairwise different. \<open>POther\<close>
  stands for the remaining decoded objects (floats, tagged values, dates): they have
  no \<open>get\<close>, no length and no subscription.
\<close>

datatype pyobj =
    PNone
  | PBool bool
  | PInt int
  | PStr string
  | PBytes bytes
  | PList "pyobj list"
  | PDict "(pyobj \<times> pyobj) list"
  | POther string

text \<open>Dictionary keys are compared with \<open>==\<close>, for which \<open>False == 0\<close> and \<open>True == 1\<close>.\<close>

fun norm_key :: "pyobj \<Rightarrow> pyobj" where
  "norm_key (PBool b) = PInt (if b then 1 else 0)"
| "norm_key k = k"

definition dict_lookup :: "(pyobj \<times> pyobj) list \<Rightarrow> pyobj \<Rightarrow> pyobj option" where
  "dict_lookup kvs k = map_of (map (\<lambda>(k', v). (norm_key k', v)) kvs) (norm_key k)"

text \<open>\<open>obj.get(key, default)\<close>: only a dictionary has the method.\<close>

fun py_get :: "pyobj \<Rightarrow> string \<Rightarrow> pyobj \<Rightarrow> exn + pyobj" where
  "py_get (PDict kvs) key dflt =
     Inr (case dict_lookup kvs (PStr key) of None \<Rightarrow> dflt | Some v \<Rightarrow> v)"
| "py_get _ key dflt = Inl AttributeError"

text \<open>\<open>len(obj)\<close>.\<close>

fun py_len :: "pyobj \<Rightarrow> exn + nat" where
  "py_len (PStr s) = Inr (length s)"
| "py_len (PBytes bs) = Inr (length bs)"
| "py_len (PList xs) = Inr (length xs)"
| "py_len (PDict kvs) = Inr (length kvs)"
| "py_len _ = Inl TypeError"

text \<open>\<open>obj[n]\<close> for a literal index \<open>n \<ge> 0\<close>, as in \<open>x5c[0]\<close> and \<open>x5c[1]\<close>.\<close>

fun py_index :: "pyobj \<Rightarrow> nat \<Rightarrow> exn + pyobj" where
  "py_index (PList xs) n = (if n < length xs then Inr (xs ! n) else Inl IndexError)"
| "py_index (PBytes bs) n = (if n < length bs then Inr (PInt (uint (bs ! n))) else Inl IndexError)"
| "py_index (PStr s) n = (if n < length s then Inr (PStr [s ! n]) else Inl IndexError)"
| "py_index (PDict kvs) n =
     (case dict_lookup kvs (PInt (int n)) of None \<Rightarrow> Inl KeyError | Some v \<Rightarrow> Inr v)"
| "py_index _ n = Inl TypeError"

text \<open>\<open>obj['key']\<close>, as in \<open>assertion['signature']\<close>.\<close>

fun py_item :: "pyobj \<Rightarrow> string \<Rightarrow> exn + pyobj" where
  "py_item (PDict kvs) key =
     (case dict_lookup kvs (PStr key) of None \<Rightarrow> Inl KeyError | Some v \<Rightarrow> Inr v)"
| "py_item _ key = Inl TypeError"

text \<open>
  \<open>struct.unpack('>I', bs)[0]\<close> for \<open>n = 4\<close> and \<open>struct.unpack('>H', bs)[0]\<close> for
  \<open>n = 2\<close>: the buffer must have exactly \<open>n\<close> bytes.
\<close>

definition struct_unpack_be :: "nat \<Rightarrow> bytes \<Rightarrow> exn + nat" where
  "struct_unpack_be n bs = (if length bs = n then Inr (int_from_bytes_big bs) else Inl StructError)"

text \<open>\<open>x.to_bytes(n, 'big')\<close> for \<open>x \<ge> 0\<close>.\<close>

definition int_to_bytes_big :: "nat \<Rightarrow> nat \<Rightarrow> exn + bytes" where
  "int_to_bytes_big n x =
     (if x < 256 ^ n then Inr (map (\<lambda>k. of_nat (x div 256 ^ (n - 1 - k))) [0..<n])
      else Inl OverflowError)"

text \<open>
  \<open>obj + bs\<close> for a bytes object \<open>bs\<close>: concatenation when \<open>obj\<close> is a bytes
  object too, \<open>TypeError\<close> otherwise.
\<close>

fun bytes_add :: "pyobj \<Rightarrow> bytes \<Rightarrow> exn + bytes" where
  "bytes_add (PBytes a) bs = Inr (a @ bs)"
| "bytes_add _ bs = Inl TypeError"

text \<open>\<open>s.encode()\<close>: a \<open>string\<close> is taken as the UTF-8 bytes of the text.\<close>

definition encode :: "string \<Rightarrow> bytes" where
  "encode s = map of_char s"

text \<open>
  What the scripts see of the \<open>cryptography\<close> objects. A public key is an
  \<open>EllipticCurvePublicKey\<close> with its public numbers, or a key of another class. Of a
  certificate the scripts read the signature, the to-be-signed bytes, the signature
  hash algorithm, the public key and the extension with the OID
  1.2.840.113635.100.8.2; \<open>nonce_extension\<close> is the payload \<open>ext.value.value\<close> of that
  extension, or the exception of \<open>get_extension_for_oid\<close>, which is
  \<open>ExtensionNotFound\<close> when the certificate has no such extension.
\<close>

datatype pubkey = EllipticCurvePublicKey nat nat | OtherPublicKey string

record certificate =
  signature :: bytes
  tbs_certificate_bytes :: bytes
  signature_hash_algorithm :: "exn + string"
  public_key :: "exn + pubkey"
  nonce_extension :: "exn + bytes"

text \<open>
  The library functions the scripts call, as parameters. \<open>apple_root_ca\<close> is the
  result of \<open>load_pem_x509_certificate\<close> on the pinned \<open>APPLE_ROOT_CA_PEM\<close>.
  \<open>ecdsa_verify pk sig data alg\<close> is \<open>pk.verify(sig, data, ec.ECDSA(alg))\<close>: \<open>None\<close>
  when it returns, the exception otherwise. \<open>json_dumps ph ea\<close> is the encoded
  \<open>json.dumps\<close> of the payload with the keys \<open>passportHash\<close> and \<open>evmAddress\<close>.
\<close>

record library =
  b64decode :: "pyobj \<Rightarrow> exn + bytes"
  b64encode :: "bytes \<Rightarrow> string"
  cbor_loads :: "bytes \<Rightarrow> exn + pyobj"
  sha256 :: "bytes \<Rightarrow> bytes"
  load_der_x509_certificate :: "pyobj \<Rightarrow> exn + certificate"
  apple_root_ca :: "exn + certificate"
  ecdsa_verify :: "pubkey \<Rightarrow> pyobj \<Rightarrow> bytes \<Rightarrow> string \<Rightarrow> exn option"
  json_dumps :: "pyobj \<Rightarrow> pyobj \<Rightarrow> exn + bytes"
  load_der_public_key :: "bytes \<Rightarrow> exn + pubkey"

section \<open>Attestation Verifier: \<open>verify_attestation\<close> (verify_attestation.py, lines 139-282)\<close>

text \<open>The strings appended to \<open>errors\<close>, one constructor for each.\<close>

datatype message =
    InvalidFormat pyobj
  | ChainTooShort
  | RpIdHashMismatch
  | ATFlagNotSet
  | SignCountNotZero nat
  | AaguidMismatch string
  | IntermediateSignatureInvalid exn
  | LeafSignatureInvalid exn
  | LeafKeyNotEC
  | CredentialIdMismatch
  | NonceMismatch
  | NonceExtensionNotFound
  | NonceVerificationError exn
  | ParseError exn

record VerificationResult =
  ok :: bool
  public_key_uncompressed :: "bytes option"
  public_key_x :: "bytes option"
  public_key_y :: "bytes option"
  key_id :: "bytes option"
  key_id_b64 :: "string option"
  credential_id :: "bytes option"
  errors :: "message list"

text \<open>\<open>VerificationResult(False, None, None, None, None, None, cred, errors)\<close>.\<close>

definition failed :: "bytes option \<Rightarrow> message list \<Rightarrow> VerificationResult" where
  "failed cred errs =
     \<lparr>ok = False, public_key_uncompressed = None, public_key_x = None, public_key_y = None,
      key_id = None, key_id_b64 = None, credential_id = cred, errors = errs\<rparr>"

text \<open>
  Step 2, lines 172-177. On a bytes object the slices never fail and are cut at the
  end of the buffer; \<open>auth_data[32]\<close> raises \<open>IndexError\<close> and the two
  \<open>struct.unpack\<close> calls raise \<open>struct.error\<close> on a short buffer. On \<open>None\<close>, a
  number or a dictionary line 172 raises (\<open>TypeError\<close>; for a dictionary \<open>KeyError\<close>
  from Python 3.12 on, shown here as \<open>TypeError\<close>); a text or a list passes line 172,
  raises \<open>IndexError\<close> at line 173 when it has at most 32 items and \<open>TypeError\<close> in
  \<open>struct.unpack\<close> at line 174 otherwise.
\<close>

record auth_fields =
  rp_id_hash :: bytes
  flags :: byte
  sign_count :: nat
  aaguid :: bytes
  cred_id_len :: nat
  cred_id :: bytes

definition parse_auth_bytes :: "bytes \<Rightarrow> exn + auth_fields" where
  "parse_auth_bytes auth_data =
     (if \<not> 32 < length auth_data then Inl IndexError
      else
        bind_exn (struct_unpack_be 4 (take 4 (drop 33 auth_data))) (\<lambda>sc.
        bind_exn (struct_unpack_be 2 (take 2 (drop 53 auth_data))) (\<lambda>n.
        Inr \<lparr>rp_id_hash = take 32 auth_data, flags = auth_data ! 32, sign_count = sc,
             aaguid = take 16 (drop 37 auth_data), cred_id_len = n,
             cred_id = take n (drop 55 auth_data)\<rparr>)))"

fun parse_auth_data :: "pyobj \<Rightarrow> exn + auth_fields" where
  "parse_auth_data (PBytes auth_data) = parse_auth_bytes auth_data"
| "parse_auth_data (PStr s) = (if \<not> 32 < length s then Inl IndexError else Inl TypeError)"
| "parse_auth_data (PList xs) = (if \<not> 32 < length xs then Inl IndexError else Inl TypeError)"
| "parse_auth_data _ = Inl TypeError"

text \<open>Steps 3 to 6, lines 180-195: what each check appends to \<open>errors\<close>.\<close>

definition check_rp_id_hash :: "library \<Rightarrow> string \<Rightarrow> string \<Rightarrow> bytes \<Rightarrow> message list" where
  "check_rp_id_hash L team_id bundle_id rp =
     (if rp \<noteq> sha256 L (encode (team_id @ ''.'' @ bundle_id)) then [RpIdHashMismatch] else [])"

definition check_flags :: "byte \<Rightarrow> message list" where
  "check_flags fl = (if \<not> (fl AND 0x40 \<noteq> 0) then [ATFlagNotSet] else [])"

definition check_sign_count :: "nat \<Rightarrow> message list" where
  "check_sign_count sc = (if sc \<noteq> 0 then [SignCountNotZero sc] else [])"

definition expected_aaguid :: "string \<Rightarrow> bytes" where
  "expected_aaguid env =
     (if env = ''dev'' then encode ''appattestdevelop'' else encode ''appattest'' @ replicate 7 0x00)"

definition check_aaguid :: "string \<Rightarrow> bytes \<Rightarrow> message list" where
  "check_aaguid env ag = (if ag \<noteq> expected_aaguid env then [AaguidMismatch env] else [])"

text \<open>
  Step 7, lines 203-219. The body of each \<open>try\<close>:
  \<open>issuer.public_key().verify(subject.signature, subject.tbs_certificate_bytes,
  ec.ECDSA(subject.signature_hash_algorithm))\<close>, with the exception it raises, if any.
\<close>

definition verify_signed_by :: "library \<Rightarrow> certificate \<Rightarrow> certificate \<Rightarrow> exn option" where
  "verify_signed_by L issuer subject =
     (case public_key issuer of
        Inl e \<Rightarrow> Some e
      | Inr pk \<Rightarrow>
          (case signature_hash_algorithm subject of
             Inl e \<Rightarrow> Some e
           | Inr alg \<Rightarrow>
               ecdsa_verify L pk (PBytes (signature subject)) (tbs_certificate_bytes subject) alg))"

definition check_intermediate_signature :: "library \<Rightarrow> certificate \<Rightarrow> certificate \<Rightarrow> message list" where
  "check_intermediate_signature L root_ca intermediate =
     (case verify_signed_by L root_ca intermediate of
        None \<Rightarrow> [] | Some e \<Rightarrow> [IntermediateSignatureInvalid e])"

definition check_leaf_signature :: "library \<Rightarrow> certificate \<Rightarrow> certificate \<Rightarrow> message list" where
  "check_leaf_signature L intermediate leaf_cert =
     (case verify_signed_by L intermediate leaf_cert of
        None \<Rightarrow> [] | Some e \<Rightarrow> [LeafSignatureInvalid e])"

text \<open>Step 9, lines 235-236.\<close>

definition check_credential_id :: "bytes \<Rightarrow> bytes \<Rightarrow> message list" where
  "check_credential_id cred kid = (if cred \<noteq> kid then [CredentialIdMismatch] else [])"

text \<open>
  Step 10, lines 239-266. Both handlers append: \<open>ExtensionNotFound\<close> has its own
  message, any other exception of the \<open>try\<close> body the general one. The \<open>print\<close> calls
  of the mismatch branch write to the terminal only.
\<close>

definition nonce_handler :: "exn \<Rightarrow> message list" where
  "nonce_handler e =
     (if e = ExtensionNotFound then [NonceExtensionNotFound] else [NonceVerificationError e])"

definition check_nonce :: "library \<Rightarrow> certificate \<Rightarrow> pyobj \<Rightarrow> bytes \<Rightarrow> message list" where
  "check_nonce L leaf_cert auth_data challenge =
     (case bind_exn (nonce_extension leaf_cert) (\<lambda>payload.
           bind_exn (extract_nonce_from_extension payload) (\<lambda>cert_nonce.
           bind_exn (bytes_add auth_data challenge) (\<lambda>m1.
           let expected_nonce_1 = sha256 L m1;
               client_data_hash = sha256 L challenge in
           bind_exn (bytes_add auth_data client_data_hash) (\<lambda>m2.
           let expected_nonce_2 = sha256 L m2 in
           Inr (if cert_nonce = expected_nonce_1 then []
                else if cert_nonce = expected_nonce_2 then []
                else [NonceMismatch]))))) of
        Inl e \<Rightarrow> nonce_handler e
      | Inr appended \<Rightarrow> appended)"

text \<open>
  Lines 179-278, from the parsed \<open>authData\<close> on. The result is what the \<open>try\<close> body
  returns, or the exception it raises together with the \<open>errors\<close> appended before.
\<close>

definition attestation_checks ::
  "library \<Rightarrow> bytes \<Rightarrow> string \<Rightarrow> string \<Rightarrow> string \<Rightarrow> pyobj \<Rightarrow> pyobj \<Rightarrow> auth_fields
     \<Rightarrow> (message list \<times> exn) + VerificationResult" where
  "attestation_checks L challenge team_id bundle_id env x5c auth_data f =
     (let errors1 = check_rp_id_hash L team_id bundle_id (rp_id_hash f) @ check_flags (flags f)
                      @ check_sign_count (sign_count f) @ check_aaguid env (aaguid f) in
      case bind_exn (py_index x5c 0) (load_der_x509_certificate L) of
        Inl e \<Rightarrow> Inl (errors1, e)
      | Inr leaf_cert \<Rightarrow>
     (case bind_exn (py_index x5c 1) (load_der_x509_certificate L) of
        Inl e \<Rightarrow> Inl (errors1, e)
      | Inr intermediate \<Rightarrow>
     (case apple_root_ca L of
        Inl e \<Rightarrow> Inl (errors1, e)
      | Inr root_ca \<Rightarrow>
      let errors2 = errors1 @ check_intermediate_signature L root_ca intermediate
                      @ check_leaf_signature L intermediate leaf_cert in
     (case public_key leaf_cert of
        Inl e \<Rightarrow> Inl (errors2, e)
      | Inr (OtherPublicKey kind) \<Rightarrow> Inr (failed (Some (cred_id f)) (errors2 @ [LeafKeyNotEC]))
      | Inr (EllipticCurvePublicKey x y) \<Rightarrow>
     (case bind_exn (int_to_bytes_big 32 x) (\<lambda>x_bytes.
           bind_exn (int_to_bytes_big 32 y) (\<lambda>y_bytes. Inr (x_bytes, y_bytes))) of
        Inl e \<Rightarrow> Inl (errors2, e)
      | Inr (x_bytes, y_bytes) \<Rightarrow>
      let uncompressed = [0x04] @ x_bytes @ y_bytes;
          kid = sha256 L uncompressed;
          errors3 = errors2 @ check_credential_id (cred_id f) kid
                      @ check_nonce L leaf_cert auth_data challenge
      in Inr \<lparr>ok = (length errors3 = 0), public_key_uncompressed = Some uncompressed,
              public_key_x = Some x_bytes, public_key_y = Some y_bytes, key_id = Some kid,
              key_id_b64 = Some (b64encode L kid), credential_id = Some (cred_id f),
              errors = errors3\<rparr>)))))"

text \<open>Lines 158-177, on the decoded container.\<close>

definition attestation_container ::
  "library \<Rightarrow> pyobj \<Rightarrow> bytes \<Rightarrow> string \<Rightarrow> string \<Rightarrow> string
     \<Rightarrow> (message list \<times> exn) + VerificationResult" where
  "attestation_container L att challenge team_id bundle_id env =
     (case py_get att ''fmt'' PNone of
        Inl e \<Rightarrow> Inl ([], e)
      | Inr fmt \<Rightarrow>
      if fmt \<noteq> PStr ''apple-appattest'' then Inr (failed None [InvalidFormat fmt])
      else
     (case bind_exn (py_get att ''attStmt'' (PDict [])) (\<lambda>att_stmt.
           bind_exn (py_get att ''authData'' PNone) (\<lambda>auth_data.
           bind_exn (py_get att_stmt ''x5c'' (PList [])) (\<lambda>x5c.
           bind_exn (py_len x5c) (\<lambda>n. Inr (auth_data, x5c, n))))) of
        Inl e \<Rightarrow> Inl ([], e)
      | Inr (auth_data, x5c, n) \<Rightarrow>
      if n < 2 then Inr (failed None [ChainTooShort])
      else
     (case parse_auth_data auth_data of
        Inl e \<Rightarrow> Inl ([], e)
      | Inr f \<Rightarrow> attestation_checks L challenge team_id bundle_id env x5c auth_data f)))"

text \<open>The \<open>try\<close> body from line 155 on.\<close>

definition attestation_body ::
  "library \<Rightarrow> string \<Rightarrow> bytes \<Rightarrow> string \<Rightarrow> string \<Rightarrow> string
     \<Rightarrow> (message list \<times> exn) + VerificationResult" where
  "attestation_body L attestation_b64 challenge team_id bundle_id env =
     (case bind_exn (b64decode L (PStr attestation_b64)) (cbor_loads L) of
        Inl e \<Rightarrow> Inl ([], e)
      | Inr att \<Rightarrow> attestation_container L att challenge team_id bundle_id env)"

text \<open>
  \<open>verify_attestation\<close>: the handler of line 280 appends the parse error to the
  \<open>errors\<close> collected so far and returns a failed result.
\<close>

definition verify_attestation ::
  "library \<Rightarrow> string \<Rightarrow> bytes \<Rightarrow> string \<Rightarrow> string \<Rightarrow> string \<Rightarrow> VerificationResult" where
  "verify_attestation L attestation_b64 challenge team_id bundle_id env =
     (case attestation_body L attestation_b64 challenge team_id bundle_id env of
        Inr result \<Rightarrow> result
      | Inl (errs, e) \<Rightarrow> failed None (errs @ [ParseError e]))"

section \<open>Assertion Verifier: \<open>verify_assertion\<close> (verify_assertion.py, lines 53-101)\<close>

datatype assertion_message =
    Replay nat int
  | Valid nat
  | InvalidSignatureMessage
  | ErrorMessage exn

text \<open>
  \<open>struct.unpack('>I', auth_data[33:37])[0]\<close> of line 80: a bytes object is sliced
  and unpacked; every other object raises at the slice or in \<open>struct.unpack\<close>
  (\<open>TypeError\<close>; for a dictionary \<open>KeyError\<close> from Python 3.12 on).
\<close>

fun unpack_counter :: "pyobj \<Rightarrow> exn + nat" where
  "unpack_counter (PBytes auth_data) = struct_unpack_be 4 (take 4 (drop 33 auth_data))"
| "unpack_counter _ = Inl TypeError"

text \<open>
  The \<open>try\<close> body, lines 67-96: the returned triple, or the exception.
\<close>

definition assertion_body ::
  "library \<Rightarrow> (string \<rightharpoonup> pyobj) \<Rightarrow> bytes \<Rightarrow> int \<Rightarrow> exn + (bool \<times> int \<times> assertion_message)" where
  "assertion_body L signed_data public_key_bytes stored_counter =
     (case signed_data ''passportHash'' of None \<Rightarrow> Inl KeyError | Some passport_hash \<Rightarrow>
     (case signed_data ''evmAddress'' of None \<Rightarrow> Inl KeyError | Some evm_address \<Rightarrow>
     (case signed_data ''assertion'' of None \<Rightarrow> Inl KeyError | Some assertion_b64 \<Rightarrow>
      bind_exn (b64decode L assertion_b64) (\<lambda>assertion_data.
      bind_exn (cbor_loads L assertion_data) (\<lambda>assertion.
      bind_exn (py_item assertion ''signature'') (\<lambda>sig.
      bind_exn (py_item assertion ''authenticatorData'') (\<lambda>auth_data.
      bind_exn (unpack_counter auth_data) (\<lambda>counter.
      if int counter \<le> stored_counter
      then Inr (False, stored_counter, Replay counter stored_counter)
      else
        bind_exn (json_dumps L passport_hash evm_address) (\<lambda>request_data.
        let client_data_hash = sha256 L request_data in
        bind_exn (bytes_add auth_data client_data_hash) (\<lambda>m.
        let nonce = sha256 L m in
        bind_exn (load_der_public_key L public_key_bytes) (\<lambda>pk.
        case ecdsa_verify L pk sig nonce ''sha256'' of
          Some e \<Rightarrow> Inl e
        | None \<Rightarrow> Inr (True, int counter, Valid counter))))))))))))"

definition verify_assertion ::
  "library \<Rightarrow> (string \<rightharpoonup> pyobj) \<Rightarrow> bytes \<Rightarrow> int \<Rightarrow> bool \<times> int \<times> assertion_message" where
  "verify_assertion L signed_data public_key_bytes stored_counter =
     (case assertion_body L signed_data public_key_bytes stored_counter of
        Inr r \<Rightarrow> r
      | Inl e \<Rightarrow>
          if e = InvalidSignature then (False, stored_counter, InvalidSignatureMessage)
          else (False, stored_counter, ErrorMessage e))"

section \<open>Well-formed inputs\<close>

text \<open>
  The \<open>signCount\<close> of an \<open>authenticatorData\<close> buffer: the big-endian number in its
  bytes 33 to 36.
\<close>

definition sign_count_of :: "bytes \<Rightarrow> nat" where
  "sign_count_of auth_data = int_from_bytes_big (take 4 (drop 33 auth_data))"

text \<open>
  An assertion request that \<open>verify_assertion\<close> can read: \<open>signed_data\<close> has its three
  keys, the assertion decodes to an object with a \<open>signature\<close> and an
  \<open>authenticatorData\<close> byte string, and that byte string reaches the counter.
\<close>

definition assertion_fields ::
  "library \<Rightarrow> (string \<rightharpoonup> pyobj) \<Rightarrow> pyobj \<Rightarrow> pyobj \<Rightarrow> pyobj \<Rightarrow> bytes \<Rightarrow> bool" where
  "assertion_fields L signed_data passport_hash evm_address sig auth_data \<longleftrightarrow>
     signed_data ''passportHash'' = Some passport_hash \<and>
     signed_data ''evmAddress'' = Some evm_address \<and>
     (case signed_data ''assertion'' of
        None \<Rightarrow> False
      | Some assertion_b64 \<Rightarrow>
          (case bind_exn (b64decode L assertion_b64) (cbor_loads L) of
             Inl e \<Rightarrow> False
           | Inr assertion \<Rightarrow>
               py_item assertion ''signature'' = Inr sig \<and>
               py_item assertion ''authenticatorData'' = Inr (PBytes auth_data))) \<and>
     37 \<le> length auth_data"

text \<open>
  An attestation whose container \<open>verify_attestation\<close> can read: it decodes to an
  object \<open>att\<close> with the format tag \<open>apple-appattest\<close>, \<open>att_stmt\<close> and
  \<open>auth_data\<close> are what \<open>att.get\<close> returns for \<open>attStmt\<close> and \<open>authData\<close>,
  \<open>x5c\<close> is what \<open>att_stmt.get\<close> returns for \<open>x5c\<close>, and \<open>n\<close> is \<open>len(x5c)\<close>.
\<close>

definition container_fields ::
  "library \<Rightarrow> string \<Rightarrow> pyobj \<Rightarrow> pyobj \<Rightarrow> pyobj \<Rightarrow> pyobj \<Rightarrow> nat \<Rightarrow> bool" where
  "container_fields L attestation_b64 att att_stmt auth_data x5c n \<longleftrightarrow>
     bind_exn (b64decode L (PStr attestation_b64)) (cbor_loads L) = Inr att \<and>
     py_get att ''fmt'' PNone = Inr (PStr ''apple-appattest'') \<and>
     py_get att ''attStmt'' (PDict []) = Inr att_stmt \<and>
     py_get att ''authData'' PNone = Inr auth_data \<and>
     py_get att_stmt ''x5c'' (PList []) = Inr x5c \<and>
     py_len x5c = Inr n"

text \<open>The first two entries of the chain and the pinned root load as certificates.\<close>

definition certificates_loaded ::
  "library \<Rightarrow> pyobj \<Rightarrow> certificate \<Rightarrow> certificate \<Rightarrow> certificate \<Rightarrow> bool" where
  "certificates_loaded L x5c leaf_cert intermediate root_ca \<longleftrightarrow>
     bind_exn (py_index x5c 0) (load_der_x509_certificate L) = Inr leaf_cert \<and>
     bind_exn (py_index x5c 1) (load_der_x509_certificate L) = Inr intermediate \<and>
     apple_root_ca L = Inr root_ca"

text \<open>
  The key of the leaf certificate is an elliptic-curve key whose coordinates fit in 32
  bytes each: \<open>x_bytes\<close> and \<open>y_bytes\<close> are their big-endian encodings.
\<close>

definition key_extracted :: "certificate \<Rightarrow> bytes \<Rightarrow> bytes \<Rightarrow> bool" where
  "key_extracted leaf_cert x_bytes y_bytes \<longleftrightarrow>
     (case public_key leaf_cert of
        Inr (EllipticCurvePublicKey x y) \<Rightarrow>
          int_to_bytes_big 32 x = Inr x_bytes \<and> int_to_bytes_big 32 y = Inr y_bytes
      | _ \<Rightarrow> False)"

section \<open>A sample instance of the library interface\<close>

text \<open>
  The theorems below hold for every instance of \<open>library\<close>. To show that their
  hypotheses can be met, and to run the verifiers on concrete inputs, this section
  gives one small instance: base64 decoding rejects a text with an exclamation mark,
  CBOR decoding rejects the empty input and otherwise returns a fixed container, the digest is a
  32-byte function of the length and the sum of its input, a signature is valid when
  it is the digest of the signed bytes followed by the two coordinates of the key, and
  certificates are looked up by their one-byte encodings. None of it enters the
  general theorems.
\<close>

definition sample_digest :: "bytes \<Rightarrow> bytes" where
  "sample_digest bs = map (\<lambda>k. of_nat k + of_nat (length bs) + sum_list bs) [0..<32]"

definition sample_verify :: "pubkey \<Rightarrow> pyobj \<Rightarrow> bytes \<Rightarrow> string \<Rightarrow> exn option" where
  "sample_verify pk sg data alg =
     (case pk of
        OtherPublicKey kind \<Rightarrow> Some TypeError
      | EllipticCurvePublicKey x y \<Rightarrow>
          if sg = PBytes (sample_digest (data @ [of_nat x, of_nat y])) then None
          else Some InvalidSignature)"

definition sample_root :: certificate where
  "sample_root =
     \<lparr>signature = [], tbs_certificate_bytes = [0x52],
      signature_hash_algorithm = Inr ''sha384'',
      public_key = Inr (EllipticCurvePublicKey 7 8),
      nonce_extension = Inl ExtensionNotFound\<rparr>"

definition sample_library :: "pyobj \<Rightarrow> (pyobj \<Rightarrow> exn + certificate) \<Rightarrow> library" where
  "sample_library decoded certs =
     \<lparr>b64decode = (\<lambda>obj. case obj of
                            PStr s \<Rightarrow> if CHR ''!'' \<in> set s then Inl (LibraryError ''binascii.Error'')
                                      else Inr (encode s)
                          | PBytes bs \<Rightarrow> Inr bs
                          | _ \<Rightarrow> Inl TypeError),
      b64encode = map (\<lambda>b. char_of (unat b)),
      cbor_loads = (\<lambda>bs. if bs = [] then Inl (LibraryError ''CBORDecodeEOF'') else Inr decoded),
      sha256 = sample_digest,
      load_der_x509_certificate = certs,
      apple_root_ca = Inr sample_root,
      ecdsa_verify = sample_verify,
      json_dumps = (\<lambda>ph ea. case (ph, ea) of (PStr a, PStr b) \<Rightarrow> Inr (encode a @ encode b)
                                            | _ \<Rightarrow> Inl TypeError),
      load_der_public_key = (\<lambda>bs. case bs of [x, y] \<Rightarrow> Inr (EllipticCurvePublicKey (unat x) (unat y))
                                             | _ \<Rightarrow> Inl ValueError)\<rparr>"

definition sample_intermediate :: certificate where
  "sample_intermediate =
     \<lparr>signature = sample_digest [0x49, 7, 8], tbs_certificate_bytes = [0x49],
      signature_hash_algorithm = Inr ''sha384'',
      public_key = Inr (EllipticCurvePublicKey 9 10),
      nonce_extension = Inl ExtensionNotFound\<rparr>"

definition sample_key_id :: bytes where
  "sample_key_id = sample_digest ([0x04] @ replicate 31 0 @ [1] @ replicate 31 0 @ [2])"

definition sample_auth_data :: "nat \<Rightarrow> nat \<Rightarrow> bytes" where
  "sample_auth_data sc n =
     sample_digest (encode ''T.B'') @ [0x40] @ [0, 0, 0, of_nat sc]
       @ encode ''appattestdevelop'' @ [0, of_nat n] @ sample_key_id"

definition sample_leaf :: "pubkey \<Rightarrow> (exn + bytes) \<Rightarrow> certificate" where
  "sample_leaf pk ext =
     \<lparr>signature = sample_digest [0x4c, 9, 10], tbs_certificate_bytes = [0x4c],
      signature_hash_algorithm = Inr ''sha256'',
      public_key = Inr pk,
      nonce_extension = ext\<rparr>"

definition sample_nonce_payload :: "bytes \<Rightarrow> bytes" where
  "sample_nonce_payload nonce = wrap_sequence 2 ([0x04, 0x20] @ nonce)"

definition sample_certs :: "certificate \<Rightarrow> pyobj \<Rightarrow> exn + certificate" where
  "sample_certs leaf obj =
     (if obj = PBytes [0x4c] then Inr leaf
      else if obj = PBytes [0x49] then Inr sample_intermediate
      else Inl ValueError)"

definition sample_container :: "pyobj list \<Rightarrow> bytes \<Rightarrow> pyobj" where
  "sample_container chain auth =
     PDict [(PStr ''fmt'', PStr ''apple-appattest''),
            (PStr ''attStmt'', PDict [(PStr ''x5c'', PList chain)]),
            (PStr ''authData'', PBytes auth)]"

definition good_leaf :: "nat \<Rightarrow> nat \<Rightarrow> certificate" where
  "good_leaf sc n = sample_leaf (EllipticCurvePublicKey 1 2)
      (Inr (sample_nonce_payload (sample_digest (sample_auth_data sc n @ [0x63]))))"

text \<open>
  The library for an attestation with the given chain, \<open>authData\<close> and leaf
  certificate; the chain entries \<open>PBytes [0x4c]\<close> and \<open>PBytes [0x49]\<close> load as the
  leaf and the intermediate certificate.
\<close>

definition sample_attestation :: "pyobj list \<Rightarrow> bytes \<Rightarrow> certificate \<Rightarrow> library" where
  "sample_attestation chain auth leaf = sample_library (sample_container chain auth) (sample_certs leaf)"

definition sample_chain :: "pyobj list" where
  "sample_chain = [PBytes [0x4c], PBytes [0x49]]"

definition sample_assertion_auth :: "nat \<Rightarrow> bytes" where
  "sample_assertion_auth sc = replicate 33 0 @ [0, 0, 0, of_nat sc]"

definition sample_signature :: "nat \<Rightarrow> bytes" where
  "sample_signature sc =
     sample_digest (sample_digest (sample_assertion_auth sc @ sample_digest (encode ''h'' @ encode ''a''))
                    @ [1, 2])"

definition sample_assertion :: "nat \<Rightarrow> bytes \<Rightarrow> pyobj" where
  "sample_assertion sc sg =
     PDict [(PStr ''signature'', PBytes sg),
            (PStr ''authenticatorData'', PBytes (sample_assertion_auth sc))]"

definition sample_signed_data :: "string \<rightharpoonup> pyobj" where
  "sample_signed_data =
     [''passportHash'' \<mapsto> PStr ''h'', ''evmAddress'' \<mapsto> PStr ''a'', ''assertion'' \<mapsto> PStr ''QQ'']"

text \<open>The fields that the sample \<open>authData\<close> encodes.\<close>

definition sample_fields :: "nat \<Rightarrow> nat \<Rightarrow> auth_fields" where
  "sample_fields sc n =
     \<lparr>rp_id_hash = sample_digest (encode ''T.B''), flags = 0x40, sign_count = sc,
      aaguid = encode ''appattestdevelop'', cred_id_len = n, cred_id = take n sample_key_id\<rparr>"

text \<open>
  An attestation in which every check fails: wrong rpIdHash, AT flag clear,
  \<open>signCount\<close> 1, wrong aaguid, bad signatures on both certificates, a
  \<open>credentialId\<close> that is not the key id and a nonce that matches neither candidate.
\<close>

definition sample_bad_auth_data :: bytes where
  "sample_bad_auth_data =
     replicate 32 0 @ [0x00] @ [0, 0, 0, 1] @ replicate 16 0 @ [0, 32] @ replicate 32 0"

definition sample_bad_intermediate :: certificate where
  "sample_bad_intermediate =
     \<lparr>signature = [0], tbs_certificate_bytes = [0x49],
      signature_hash_algorithm = Inr ''sha384'',
      public_key = Inr (EllipticCurvePublicKey 9 10),
      nonce_extension = Inl ExtensionNotFound\<rparr>"

definition sample_bad_leaf :: certificate where
  "sample_bad_leaf =
     \<lparr>signature = [0], tbs_certificate_bytes = [0x4c],
      signature_hash_algorithm = Inr ''sha256'',
      public_key = Inr (EllipticCurvePublicKey 1 2),
      nonce_extension = Inr (sample_nonce_payload (replicate 32 0))\<rparr>"

definition sample_bad_certs :: "pyobj \<Rightarrow> exn + certificate" where
  "sample_bad_certs obj =
     (if obj = PBytes [0x4c] then Inr sample_bad_leaf
      else if obj = PBytes [0x49] then Inr sample_bad_intermediate
      else Inl ValueError)"

definition sample_bad_attestation :: library where
  "sample_bad_attestation =
     sample_library (sample_container sample_chain sample_bad_auth_data) sample_bad_certs"

text \<open>
  The parser of the claim is \<open>load_der_public_key\<close> of the \<open>cryptography\<close> library,
  which is not part of the repository. What a standard parser does on the encoding
  above is fixed by RFC 5480 and SEC 1: it reads the two coordinates as big-endian
  numbers and accepts the key only when they are field elements that satisfy the curve
  equation \<open>y\<^sup>2 = x\<^sup>3 - 3x + b\<close> over the prime field of P-256; otherwise it raises
  (\<open>ValueError: Invalid key\<close>). \<open>p256_p\<close> and \<open>p256_b\<close> are the prime and the
  coefficient of the curve, and \<open>load_p256_public_key\<close> is that reader on the 91-byte
  encodings: \<open>None\<close> stands for its exception.
\<close>

definition p256_p :: nat where
  "p256_p = 0xffffffff00000001000000000000000000000000ffffffffffffffffffffffff"

definition p256_b :: nat where
  "p256_b = 0x5ac635d8aa3a93e7b3ebbd55769886bc651d06b0cc53b0f63bce3c3e27d2604b"

definition on_p256 :: "nat \<Rightarrow> nat \<Rightarrow> bool" where
  "on_p256 x y \<longleftrightarrow>
     x < p256_p \<and> y < p256_p \<and>
     (y * y) mod p256_p = (x * x * x + (p256_p - 3) * x + p256_b) mod p256_p"

definition load_p256_public_key :: "bytes \<Rightarrow> (bytes \<times> bytes) option" where
  "load_p256_public_key der =
     (if length der = 91 \<and> take 27 der = p256_spki_header \<and>
         on_p256 (int_from_bytes_big (take 32 (drop 27 der))) (int_from_bytes_big (drop 59 der))
      then Some (take 32 (drop 27 der), drop 59 der)
      else None)"

text \<open>The base point of P-256, and a pair of coordinates that is not on the curve.\<close>

definition p256_gx :: bytes where
  "p256_gx =
     [0x6b, 0x17, 0xd1, 0xf2, 0xe1, 0x2c, 0x42, 0x47, 0xf8, 0xbc, 0xe6, 0xe5, 0x63, 0xa4, 0x40, 0xf2,
      0x77, 0x03, 0x7d, 0x81, 0x2d, 0xeb, 0x33, 0xa0, 0xf4, 0xa1, 0x39, 0x45, 0xd8, 0x98, 0xc2, 0x96]"

definition p256_gy :: bytes where
  "p256_gy =
     [0x4f, 0xe3, 0x42, 0xe2, 0xfe, 0x1a, 0x7f, 0x9b, 0x8e, 0xe7, 0xeb, 0x4a, 0x7c, 0x0f, 0x9e, 0x16,
      0x2b, 0xce, 0x33, 0x57, 0x6b, 0x31, 0x5e, 0xce, 0xcb, 0xb6, 0x40, 0x68, 0x37, 0xbf, 0x51, 0xf5]"

definition off_curve_x :: bytes where
  "off_curve_x =
     [0x11, 0x11, 0x11, 0x11, 0x11, 0x11, 0x11, 0x11, 0x11, 0x11, 0x11, 0x11, 0x11, 0x11, 0x11, 0x11,
      0x11, 0x11, 0x11, 0x11, 0x11, 0x11, 0x11, 0x11, 0x11, 0x11, 0x11, 0x11, 0x11, 0x11, 0x11, 0x11]"

definition off_curve_y :: bytes where
  "off_curve_y =
     [0x22, 0x22, 0x22, 0x22, 0x22, 0x22, 0x22, 0x22, 0x22, 0x22, 0x22, 0x22, 0x22, 0x22, 0x22, 0x22,
      0x22, 0x22, 0x22, 0x22, 0x22, 0x22, 0x22, 0x22, 0x22, 0x22, 0x22, 0x22, 0x22, 0x22, 0x22, 0x22]"

subsection \<open>Facts about the codec\<close>

lemma and_255_nat: "(n::nat) AND 255 = n mod 256"
proof -
  have "n AND mask 8 = n mod 2 ^ 8"
    by (simp add: take_bit_eq_mod flip: take_bit_eq_mask)
  then show ?thesis by (simp add: mask_eq_exp_minus_1)
qed

lemma der_len_short: "n < 128 \<Longrightarrow> der_len n = Inr [of_nat n]"
  by (simp add: der_len_def)

lemma der_len_one_byte: "128 \<le> n \<Longrightarrow> n < 256 \<Longrightarrow> der_len n = Inr [0x81, of_nat n]"
  by (simp add: der_len_def)

lemma der_len_two_bytes:
  "256 \<le> n \<Longrightarrow> n < 65536 \<Longrightarrow> der_len n = Inr [0x82, of_nat (n div 256), of_nat (n mod 256)]"
  by (simp add: der_len_def drop_bit_eq_div and_255_nat)

lemma der_len_out_of_range: "65536 \<le> n \<Longrightarrow> der_len n = Inl ValueError"
  by (simp add: der_len_def drop_bit_eq_div)

lemma build_der_public_key_p256:
  "length x = 32 \<Longrightarrow> length y = 32 \<Longrightarrow>
   build_der_public_key x y = Inr (p256_spki_header @ x @ y)"
  by (simp add: build_der_public_key_def der_len_def ec_public_key_oid_def
      prime256v1_oid_def p256_spki_header_def)

lemma length_p256_spki_header: "length p256_spki_header = 27"
  by (simp add: p256_spki_header_def)

subsection \<open>Facts about the nonce extractor\<close>

lemma byte_short_form: "n < 128 \<Longrightarrow> (of_nat n :: byte) AND 0x80 = 0"
proof -
  assume n: "n < 128"
  have "\<not> bit n 7" using n by (simp add: bit_iff_odd)
  hence "\<not> bit (of_nat n :: byte) 7"
    by (simp add: bit_of_nat_iff)
  hence "(of_nat n :: byte) AND 2 ^ 7 = 0"
    unfolding and_exp_eq_0_iff_not_bit .
  thus ?thesis by simp
qed

lemma length_wrap_sequence: "length (wrap_sequence k b) = length b + 2 * k"
  by (induction k) auto

lemma read_tlv_short:
  "n < 128 \<Longrightarrow> length v = n \<Longrightarrow> read_tlv (t # of_nat n # v) 0 = Some (t, v, n + 2)"
  by (simp add: read_tlv_def byte_short_form unat_of_nat) 

lemma find_octet32_octet:
  assumes "length v = 32" "d \<le> 10"
  shows "find_octet32 (0x04 # 0x20 # v) d = Some v"
proof -
  have "read_tlv (0x04 # of_nat 32 # v) 0 = Some (0x04, v, 32 + 2)"
    using assms by (intro read_tlv_short) auto
  then show ?thesis using assms
    by (simp add: find_octet32.simps[of _ d] find_octet32_loop.simps[of _ d])
qed

lemma find_octet32_wrap:
  "length v = 32 \<Longrightarrow> d + k \<le> 10 \<Longrightarrow>
   find_octet32 (wrap_sequence k (0x04 # 0x20 # v)) d = Some v"
proof (induction k arbitrary: d)
  case 0
  then show ?case by (simp add: find_octet32_octet)
next
  case (Suc k)
  let ?w = "wrap_sequence k (0x04 # 0x20 # v)"
  have len: "length ?w = 34 + 2 * k" using Suc.prems by (simp add: length_wrap_sequence)
  then have small: "length ?w < 128" using Suc.prems by simp
  have rd: "read_tlv (0x30 # of_nat (length ?w) # ?w) 0 = Some (0x30, ?w, length ?w + 2)"
    using small by (intro read_tlv_short) auto
  have ih: "find_octet32 ?w (d + 1) = Some v"
    using Suc.IH[of "d + 1"] Suc.prems by simp
  have v: "v \<noteq> []" using Suc.prems by auto
  show ?case using rd ih v Suc.prems len
    by (simp add: find_octet32.simps[of _ d] find_octet32_loop.simps[of _ d])
qed


















lemma first_append:
  "(case xs @ ys of [] \<Rightarrow> None | x # _ \<Rightarrow> Some x) =
   (case xs of [] \<Rightarrow> (case ys of [] \<Rightarrow> None | y # _ \<Rightarrow> Some y) | x # _ \<Rightarrow> Some x)"
  by (cases xs) auto














subsection \<open>Facts about the assertion verifier\<close>

lemma length_sample_digest [simp]: "length (sample_digest bs) = 32"
  by (simp add: sample_digest_def)

lemma assertion_body_returns:
  "assertion_body L sd pkb c = Inr r \<Longrightarrow>
     (\<exists>n. r = (False, c, Replay n c) \<and> int n \<le> c) \<or> (\<exists>n. r = (True, int n, Valid n) \<and> c < int n)"
  by (auto simp: assertion_body_def bind_exn_def Let_def
           split: option.splits sum.splits if_splits)

lemma verify_assertion_cases:
  "(\<exists>n. verify_assertion L sd pkb c = (False, c, Replay n c) \<and> int n \<le> c) \<or>
   (\<exists>n. verify_assertion L sd pkb c = (True, int n, Valid n) \<and> c < int n) \<or>
   verify_assertion L sd pkb c = (False, c, InvalidSignatureMessage) \<or>
   (\<exists>e. verify_assertion L sd pkb c = (False, c, ErrorMessage e))"
proof (cases "assertion_body L sd pkb c")
  case (Inl e)
  then show ?thesis by (simp add: verify_assertion_def)
next
  case (Inr r)
  from assertion_body_returns[OF Inr] show ?thesis
    using Inr by (auto simp: verify_assertion_def)
qed

lemma assertion_body_replay:
  assumes "assertion_fields L sd ph ea sig ad" "int (sign_count_of ad) \<le> c"
  shows "assertion_body L sd pkb c = Inr (False, c, Replay (sign_count_of ad) c)"
  using assms
  by (auto simp: assertion_fields_def assertion_body_def bind_exn_def sign_count_of_def
                 struct_unpack_be_def split: option.splits sum.splits)

lemma assertion_fields_update:
  "assertion_fields (L\<lparr>json_dumps := j, load_der_public_key := k, ecdsa_verify := v\<rparr>) sd ph ea sig ad
     = assertion_fields L sd ph ea sig ad"
  by (simp add: assertion_fields_def cong: option.case_cong)

lemma assertion_body_valid:
  assumes "assertion_fields L sd ph ea sig ad" "c < int (sign_count_of ad)"
    "json_dumps L ph ea = Inr request_data" "load_der_public_key L pkb = Inr pk"
    "ecdsa_verify L pk sig (sha256 L (ad @ sha256 L request_data)) ''sha256'' = None"
  shows "assertion_body L sd pkb c = Inr (True, int (sign_count_of ad), Valid (sign_count_of ad))"
  using assms
  by (auto simp: assertion_fields_def assertion_body_def bind_exn_def sign_count_of_def
                 struct_unpack_be_def Let_def split: option.splits sum.splits)

text \<open>
  Claim C2. For an assertion that \<open>verify_assertion\<close> can read, with \<open>signCount\<close>
  the big-endian number in bytes 33 to 36 of its \<open>authenticatorData\<close>: when
  \<open>signCount \<le> stored_counter\<close> the result is the replay failure with the stored
  counter, whatever the payload encoder, the key loader and the signature check of the
  library do and whatever the key bytes are, so the signature is not looked at; when
  \<open>signCount > stored_counter\<close> and the signature verifies, the result is success
  with \<open>signCount\<close> as the new counter.
\<close>

theorem verify_assertion_replay_check:
  assumes "assertion_fields L sd ph ea sig ad"
  shows
   "(int (sign_count_of ad) \<le> stored \<longrightarrow>
       verify_assertion L sd pkb stored = (False, stored, Replay (sign_count_of ad) stored) \<and>
       verify_assertion (L\<lparr>json_dumps := j, load_der_public_key := k, ecdsa_verify := v\<rparr>) sd pkb' stored
         = (False, stored, Replay (sign_count_of ad) stored)) \<and>
    (stored' < int (sign_count_of ad) \<and> json_dumps L ph ea = Inr request_data \<and>
     load_der_public_key L pkb = Inr pk \<and>
     ecdsa_verify L pk sig (sha256 L (ad @ sha256 L request_data)) ''sha256'' = None \<longrightarrow>
       verify_assertion L sd pkb stored' = (True, int (sign_count_of ad), Valid (sign_count_of ad)))"
proof (intro conjI impI)
  assume le: "int (sign_count_of ad) \<le> stored"
  show "verify_assertion L sd pkb stored = (False, stored, Replay (sign_count_of ad) stored)"
    by (simp add: verify_assertion_def assertion_body_replay[OF assms le])
  have "assertion_fields (L\<lparr>json_dumps := j, load_der_public_key := k, ecdsa_verify := v\<rparr>) sd ph ea sig ad"
    using assms by (simp only: assertion_fields_update)
  from assertion_body_replay[OF this le]
  show "verify_assertion (L\<lparr>json_dumps := j, load_der_public_key := k, ecdsa_verify := v\<rparr>) sd pkb' stored
         = (False, stored, Replay (sign_count_of ad) stored)"
    by (simp add: verify_assertion_def)
next
  assume h: "stored' < int (sign_count_of ad) \<and> json_dumps L ph ea = Inr request_data \<and>
     load_der_public_key L pkb = Inr pk \<and>
     ecdsa_verify L pk sig (sha256 L (ad @ sha256 L request_data)) ''sha256'' = None"
  then show "verify_assertion L sd pkb stored' = (True, int (sign_count_of ad), Valid (sign_count_of ad))"
    using assertion_body_valid[OF assms, of stored' request_data pkb pk]
    by (simp add: verify_assertion_def)
qed

lemma sample_fields:
  "assertion_fields (sample_library (sample_assertion sc sg) certs) sample_signed_data
     (PStr ''h'') (PStr ''a'') (PBytes sg) (sample_assertion_auth sc)"
  by (simp add: assertion_fields_def sample_library_def sample_assertion_def sample_signed_data_def
      sample_assertion_auth_def encode_def dict_lookup_def)

lemma sample_sign_count_5: "sign_count_of (sample_assertion_auth 5) = 5"
  by (simp add: sign_count_of_def sample_assertion_auth_def int_from_bytes_big_def)

lemma sample_sign_count_6: "sign_count_of (sample_assertion_auth 6) = 6"
  by (simp add: sign_count_of_def sample_assertion_auth_def int_from_bytes_big_def)

lemma sample_sig_ok:
  "ecdsa_verify (sample_library (sample_assertion 6 (sample_signature 6)) certs) (EllipticCurvePublicKey 1 2)
     (PBytes (sample_signature 6))
     (sha256 (sample_library (sample_assertion 6 (sample_signature 6)) certs)
        (sample_assertion_auth 6 @ sha256 (sample_library (sample_assertion 6 (sample_signature 6)) certs) (encode ''h'' @ encode ''a'')))
     ''sha256'' = None"
  by (simp add: sample_library_def sample_verify_def sample_signature_def)

theorem verify_assertion_replay_check_witness:
  "assertion_fields (sample_library (sample_assertion 5 []) (\<lambda>obj. Inl ValueError)) sample_signed_data
     (PStr ''h'') (PStr ''a'') (PBytes []) (sample_assertion_auth 5) \<and>
   int (sign_count_of (sample_assertion_auth 5)) \<le> 5 \<and>
   verify_assertion (sample_library (sample_assertion 5 []) (\<lambda>obj. Inl ValueError))
     sample_signed_data [1, 2] 5 = (False, 5, Replay 5 5) \<and>
   assertion_fields (sample_library (sample_assertion 6 (sample_signature 6)) (\<lambda>obj. Inl ValueError))
     sample_signed_data (PStr ''h'') (PStr ''a'') (PBytes (sample_signature 6))
     (sample_assertion_auth 6) \<and>
   5 < int (sign_count_of (sample_assertion_auth 6)) \<and>
   verify_assertion (sample_library (sample_assertion 6 (sample_signature 6)) (\<lambda>obj. Inl ValueError))
     sample_signed_data [1, 2] 5 = (True, 6, Valid 6)"
proof -
  let ?L5 = "sample_library (sample_assertion 5 []) (\<lambda>obj. Inl ValueError)"
  let ?L6 = "sample_library (sample_assertion 6 (sample_signature 6)) (\<lambda>obj. Inl ValueError)"
  have f5: "assertion_fields ?L5 sample_signed_data (PStr ''h'') (PStr ''a'') (PBytes [])
      (sample_assertion_auth 5)"
    by (rule sample_fields)
  have f6: "assertion_fields ?L6 sample_signed_data (PStr ''h'') (PStr ''a'')
      (PBytes (sample_signature 6)) (sample_assertion_auth 6)"
    by (rule sample_fields)
  have c5: "int (sign_count_of (sample_assertion_auth 5)) \<le> 5"
    by (simp add: sample_sign_count_5)
  have c6: "5 < int (sign_count_of (sample_assertion_auth 6))"
    by (simp add: sample_sign_count_6)
  have j: "json_dumps ?L6 (PStr ''h'') (PStr ''a'') = Inr (encode ''h'' @ encode ''a'')"
    by (simp add: sample_library_def)
  have k: "load_der_public_key ?L6 [1, 2] = Inr (EllipticCurvePublicKey 1 2)"
    by (simp add: sample_library_def)
  have v: "ecdsa_verify ?L6 (EllipticCurvePublicKey 1 2) (PBytes (sample_signature 6))
      (sha256 ?L6 (sample_assertion_auth 6 @ sha256 ?L6 (encode ''h'' @ encode ''a''))) ''sha256'' = None"
    by (rule sample_sig_ok)
  have r5: "verify_assertion ?L5 sample_signed_data [1, 2] 5 = (False, 5, Replay 5 5)"
    using verify_assertion_replay_check[OF f5, where stored = 5 and pkb = "[1, 2]"] c5
    by (simp add: sample_sign_count_5)
  have r6: "verify_assertion ?L6 sample_signed_data [1, 2] 5 = (True, 6, Valid 6)"
    using verify_assertion_replay_check[OF f6, where stored' = 5 and pkb = "[1, 2]"
        and request_data = "encode ''h'' @ encode ''a''" and pk = "EllipticCurvePublicKey 1 2"]
      c6 j k v
    by (simp add: sample_sign_count_6)
  show ?thesis using f5 c5 r5 f6 c6 r6 by blast
qed

text \<open>
  Claim C9. Whenever \<open>verify_assertion\<close> reports failure, the counter it returns is
  the \<open>stored_counter\<close> it was given; in particular every exception of the \<open>try\<close>
  body, \<open>InvalidSignature\<close> or any other, gives a failure with the stored counter.
\<close>

theorem verify_assertion_failure_keeps_counter:
  "(\<not> fst (verify_assertion L sd pkb c) \<longrightarrow> fst (snd (verify_assertion L sd pkb c)) = c) \<and>
   (assertion_body L sd pkb c = Inl e \<longrightarrow>
      verify_assertion L sd pkb c
        = (False, c, if e = InvalidSignature then InvalidSignatureMessage else ErrorMessage e))"
proof (intro conjI impI)
  assume "\<not> fst (verify_assertion L sd pkb c)"
  then show "fst (snd (verify_assertion L sd pkb c)) = c"
    using verify_assertion_cases[of L sd pkb c] by auto
next
  assume "assertion_body L sd pkb c = Inl e"
  then show "verify_assertion L sd pkb c
        = (False, c, if e = InvalidSignature then InvalidSignatureMessage else ErrorMessage e)"
    by (simp add: verify_assertion_def)
qed

lemma sample_missing_fields:
  "assertion_body (sample_library PNone (\<lambda>obj. Inl ValueError)) Map.empty [1, 2] 7 = Inl KeyError"
  by (simp add: assertion_body_def)

lemma sample_bad_signature:
  "assertion_body (sample_library (sample_assertion 6 [0]) (\<lambda>obj. Inl ValueError))
     sample_signed_data [1, 2] 5 = Inl InvalidSignature"
proof -
  have ne: "[0] \<noteq> sample_digest bs" for bs
  proof
    assume "[0] = sample_digest bs"
    then have "length [0::byte] = length (sample_digest bs)" by simp
    then show False by simp
  qed
  have sc: "struct_unpack_be 4 (take 4 (drop 33 (sample_assertion_auth 6))) = Inr 6"
    by (simp add: struct_unpack_be_def sample_assertion_auth_def int_from_bytes_big_def)
  show ?thesis
    by (simp add: assertion_body_def sample_library_def sample_assertion_def sample_signed_data_def
        encode_def dict_lookup_def sc sample_verify_def ne Let_def)
qed

theorem verify_assertion_failure_keeps_counter_witness:
  "\<not> fst (verify_assertion (sample_library PNone (\<lambda>obj. Inl ValueError)) Map.empty [1, 2] 7) \<and>
   assertion_body (sample_library PNone (\<lambda>obj. Inl ValueError)) Map.empty [1, 2] 7 = Inl KeyError \<and>
   verify_assertion (sample_library PNone (\<lambda>obj. Inl ValueError)) Map.empty [1, 2] 7
     = (False, 7, ErrorMessage KeyError) \<and>
   fst (snd (verify_assertion (sample_library PNone (\<lambda>obj. Inl ValueError)) Map.empty [1, 2] 7)) = 7 \<and>
   assertion_body (sample_library (sample_assertion 6 [0]) (\<lambda>obj. Inl ValueError))
     sample_signed_data [1, 2] 5 = Inl InvalidSignature \<and>
   verify_assertion (sample_library (sample_assertion 6 [0]) (\<lambda>obj. Inl ValueError))
     sample_signed_data [1, 2] 5 = (False, 5, InvalidSignatureMessage)"
proof -
  let ?L = "sample_library PNone (\<lambda>obj. Inl ValueError)"
  let ?L6 = "sample_library (sample_assertion 6 [0]) (\<lambda>obj. Inl ValueError)"
  note t = verify_assertion_failure_keeps_counter[of ?L Map.empty "[1, 2]" 7 KeyError]
  note t6 = verify_assertion_failure_keeps_counter[of ?L6 sample_signed_data "[1, 2]" 5 InvalidSignature]
  have b: "assertion_body ?L Map.empty [1, 2] 7 = Inl KeyError" by (rule sample_missing_fields)
  have b6: "assertion_body ?L6 sample_signed_data [1, 2] 5 = Inl InvalidSignature"
    by (rule sample_bad_signature)
  have r: "verify_assertion ?L Map.empty [1, 2] 7 = (False, 7, ErrorMessage KeyError)"
    using t b by simp
  have r6: "verify_assertion ?L6 sample_signed_data [1, 2] 5 = (False, 5, InvalidSignatureMessage)"
    using t6 b6 by simp
  show ?thesis using b b6 r r6 by simp
qed

subsection \<open>Facts about the attestation verifier\<close>

lemma body_chain_short:
  assumes "container_fields L s att att_stmt auth x5c n" "n < 2"
  shows "attestation_body L s ch t b env = Inr (failed None [ChainTooShort])"
  using assms by (simp add: container_fields_def attestation_body_def attestation_container_def)

lemma body_parse:
  assumes "container_fields L s att att_stmt auth x5c n" "2 \<le> n"
  shows "attestation_body L s ch t b env =
     (case parse_auth_data auth of Inl e \<Rightarrow> Inl ([], e)
      | Inr f \<Rightarrow> attestation_checks L ch t b env x5c auth f)"
  using assms by (simp add: container_fields_def attestation_body_def attestation_container_def)

lemma checks_ec:
  assumes "certificates_loaded L x5c leaf intermediate root_ca" "key_extracted leaf xb yb"
  shows "attestation_checks L ch t b env x5c auth f =
     Inr \<lparr>ok = (check_rp_id_hash L t b (rp_id_hash f) @ check_flags (flags f)
                 @ check_sign_count (sign_count f) @ check_aaguid env (aaguid f)
                 @ check_intermediate_signature L root_ca intermediate @ check_leaf_signature L intermediate leaf
                 @ check_credential_id (cred_id f) (sha256 L ([0x04] @ xb @ yb))
                 @ check_nonce L leaf auth ch = []),
          public_key_uncompressed = Some ([0x04] @ xb @ yb),
          public_key_x = Some xb, public_key_y = Some yb,
          key_id = Some (sha256 L ([0x04] @ xb @ yb)),
          key_id_b64 = Some (b64encode L (sha256 L ([0x04] @ xb @ yb))),
          credential_id = Some (cred_id f),
          errors = check_rp_id_hash L t b (rp_id_hash f) @ check_flags (flags f)
                 @ check_sign_count (sign_count f) @ check_aaguid env (aaguid f)
                 @ check_intermediate_signature L root_ca intermediate @ check_leaf_signature L intermediate leaf
                 @ check_credential_id (cred_id f) (sha256 L ([0x04] @ xb @ yb))
                 @ check_nonce L leaf auth ch\<rparr>"
  using assms
  by (auto simp: certificates_loaded_def key_extracted_def attestation_checks_def Let_def
           split: sum.splits pubkey.splits)

lemma checks_other:
  assumes "certificates_loaded L x5c leaf intermediate root_ca" "public_key leaf = Inr (OtherPublicKey kind)"
  shows "attestation_checks L ch t b env x5c auth f =
     Inr (failed (Some (cred_id f))
           (check_rp_id_hash L t b (rp_id_hash f) @ check_flags (flags f)
              @ check_sign_count (sign_count f) @ check_aaguid env (aaguid f)
              @ check_intermediate_signature L root_ca intermediate @ check_leaf_signature L intermediate leaf
              @ [LeafKeyNotEC]))"
  using assms
  by (simp add: certificates_loaded_def attestation_checks_def Let_def)

lemma checks_ok_iff:
  "attestation_checks L ch t b env x5c auth f = Inr r \<Longrightarrow> ok r = (errors r = [])"
  by (auto simp: attestation_checks_def Let_def failed_def
           split: sum.splits pubkey.splits prod.splits)

lemma body_ok_iff:
  "attestation_body L s ch t b env = Inr r \<Longrightarrow> ok r = (errors r = [])"
  by (auto simp: attestation_body_def attestation_container_def failed_def
           dest: checks_ok_iff split: sum.splits prod.splits if_splits)

lemma verify_ok_iff:
  "ok (verify_attestation L s ch t b env) = (errors (verify_attestation L s ch t b env) = [])"
  by (cases "attestation_body L s ch t b env")
     (auto simp: verify_attestation_def failed_def dest: body_ok_iff)

lemma parse_auth_bytes_layout:
  assumes "length rp = 32" "length c4 = 4" "length ag = 16"
  shows "parse_auth_bytes (rp @ [fl] @ c4 @ ag @ [hi, lo] @ cred) =
     Inr \<lparr>rp_id_hash = rp, flags = fl, sign_count = int_from_bytes_big c4,
          aaguid = ag, cred_id_len = int_from_bytes_big [hi, lo],
          cred_id = take (int_from_bytes_big [hi, lo]) cred\<rparr>"
proof -
  let ?b = "rp @ [fl] @ c4 @ ag @ [hi, lo] @ cred"
  have t32: "take 32 ?b = rp" using assms by simp
  have n32: "?b ! 32 = fl" using assms by (simp add: nth_append)
  have d33: "drop 33 ?b = c4 @ ag @ [hi, lo] @ cred" using assms by simp
  have d37: "drop 37 ?b = ag @ [hi, lo] @ cred" using assms by simp
  have d53: "drop 53 ?b = [hi, lo] @ cred" using assms by simp
  have d55: "drop 55 ?b = cred" using assms by simp
  have len: "32 < length ?b" using assms by simp
  have c: "take 4 (c4 @ ag @ [hi, lo] @ cred) = c4" using assms by simp
  have a: "take 16 (ag @ [hi, lo] @ cred) = ag" using assms by simp
  show ?thesis
    unfolding parse_auth_bytes_def t32 n32 d33 d37 d53 d55 c a
    using len assms by (simp add: struct_unpack_be_def)
qed

lemma sample_container_fields:
  "container_fields (sample_attestation chain auth leaf) ''QQ'' (sample_container chain auth)
     (PDict [(PStr ''x5c'', PList chain)]) (PBytes auth) (PList chain) (length chain)"
  by (simp add: container_fields_def sample_attestation_def sample_library_def
      sample_container_def encode_def dict_lookup_def)

lemma sample_certificates_loaded:
  "certificates_loaded (sample_attestation chain' auth leaf)
     (PList (PBytes [0x4c] # PBytes [0x49] # rest)) leaf sample_intermediate sample_root"
  by (simp add: certificates_loaded_def sample_attestation_def sample_library_def sample_certs_def)

lemma int_to_bytes_big_small:
  assumes "x < 256"
  shows "int_to_bytes_big 32 x = Inr (replicate 31 0 @ [of_nat x])"
proof -
  have lt: "x < 256 ^ 32"
  proof -
    have "(256::nat) ^ 1 \<le> 256 ^ 32" by (rule power_increasing) simp_all
    then show ?thesis using assms by simp
  qed
  have "map (\<lambda>k. of_nat (x div 256 ^ (32 - 1 - k)) :: byte) [0..<32] = replicate 31 0 @ [of_nat x]"
  proof (rule nth_equalityI)
    show "length (map (\<lambda>k. of_nat (x div 256 ^ (32 - 1 - k)) :: byte) [0..<32])
        = length (replicate 31 (0::byte) @ [of_nat x])" by simp
  next
    fix i assume "i < length (map (\<lambda>k. of_nat (x div 256 ^ (32 - 1 - k)) :: byte) [0..<32])"
    then have i: "i < 32" by simp
    show "map (\<lambda>k. of_nat (x div 256 ^ (32 - 1 - k)) :: byte) [0..<32] ! i
        = (replicate 31 0 @ [of_nat x]) ! i"
    proof (cases "i < 31")
      case True
      then have "(256::nat) ^ 1 \<le> 256 ^ (31 - i)" by (intro power_increasing) simp_all
      then have "x < 256 ^ (31 - i)" using assms by simp
      then have "x div 256 ^ (31 - i) = 0" by simp
      then show ?thesis using True i by (simp add: nth_append)
    next
      case False
      then have "i = 31" using i by simp
      then show ?thesis by (simp add: nth_append)
    qed
  qed
  then show ?thesis using lt by (simp add: int_to_bytes_big_def)
qed

lemma sample_key_extracted:
  "key_extracted (sample_leaf (EllipticCurvePublicKey 1 2) ext) (replicate 31 0 @ [1]) (replicate 31 0 @ [2])"
  using int_to_bytes_big_small[of 1] int_to_bytes_big_small[of 2]
  by (simp add: key_extracted_def sample_leaf_def)

lemma sample_extract:
  "length nonce = 32 \<Longrightarrow> extract_nonce_from_extension (sample_nonce_payload nonce) = Inr nonce"
  using find_octet32_wrap[of nonce 0 2]
  by (simp add: extract_nonce_from_extension_def sample_nonce_payload_def)

lemma sample_parse:
  "parse_auth_data (PBytes (sample_auth_data sc n)) =
     Inr \<lparr>rp_id_hash = sample_digest (encode ''T.B''), flags = 0x40,
          sign_count = int_from_bytes_big [0, 0, 0, of_nat sc],
          aaguid = encode ''appattestdevelop'',
          cred_id_len = int_from_bytes_big [0, of_nat n],
          cred_id = take (int_from_bytes_big [0, of_nat n]) sample_key_id\<rparr>"
  unfolding sample_auth_data_def parse_auth_data.simps
  by (rule parse_auth_bytes_layout) (simp_all add: encode_def)

lemma sample_be32_1: "int_from_bytes_big [0, 0, 0, of_nat 1] = 1"
  by (simp add: int_from_bytes_big_def)

lemma sample_be16_32: "int_from_bytes_big [0, of_nat 32] = 32"
  by (simp add: int_from_bytes_big_def)

lemma length_sample_key_id: "length sample_key_id = 32"
  by (simp add: sample_key_id_def)

lemma sample_sha256 [simp]: "sha256 (sample_attestation chain auth leaf) = sample_digest"
  by (simp add: sample_attestation_def sample_library_def)

lemma sample_ecdsa [simp]: "ecdsa_verify (sample_attestation chain auth leaf) = sample_verify"
  by (simp add: sample_attestation_def sample_library_def)

lemma sample_check_rp:
  "check_rp_id_hash (sample_attestation chain auth leaf) ''T'' ''B'' (sample_digest (encode ''T.B'')) = []"
  by (simp add: check_rp_id_hash_def)

lemma sample_check_flags: "check_flags 0x40 = []"
  by (simp add: check_flags_def)

lemma sample_check_aaguid: "check_aaguid ''dev'' (encode ''appattestdevelop'') = []"
  by (simp add: check_aaguid_def expected_aaguid_def)

lemma sample_check_intermediate:
  "check_intermediate_signature (sample_attestation chain auth leaf) sample_root sample_intermediate = []"
  by (simp add: check_intermediate_signature_def verify_signed_by_def sample_root_def
      sample_intermediate_def sample_verify_def)

lemma sample_check_leaf:
  "check_leaf_signature (sample_attestation chain auth leaf) sample_intermediate (sample_leaf pk ext) = []"
  by (simp add: check_leaf_signature_def verify_signed_by_def sample_leaf_def
      sample_intermediate_def sample_verify_def)

lemma sample_check_credential:
  "check_credential_id sample_key_id
     (sha256 (sample_attestation chain auth leaf) ([0x04] @ (replicate 31 0 @ [1]) @ (replicate 31 0 @ [2]))) = []"
  by (simp add: check_credential_id_def sample_key_id_def)

lemma sample_check_nonce:
  "check_nonce (sample_attestation chain auth' leaf) (good_leaf sc n)
     (PBytes (sample_auth_data sc n)) [0x63] = []"
  by (simp add: check_nonce_def good_leaf_def sample_leaf_def sample_extract Let_def)

lemma sample_parse_fields:
  "sc < 256 \<Longrightarrow> n < 256 \<Longrightarrow>
   parse_auth_data (PBytes (sample_auth_data sc n)) = Inr (sample_fields sc n)"
  by (simp only: sample_parse) (simp add: sample_fields_def int_from_bytes_big_def unat_of_nat)

lemma NonceMismatch_not_in_checks:
  "NonceMismatch \<notin> set (check_rp_id_hash L t b rp)"
  "NonceMismatch \<notin> set (check_flags fl)"
  "NonceMismatch \<notin> set (check_sign_count sc)"
  "NonceMismatch \<notin> set (check_aaguid env ag)"
  "NonceMismatch \<notin> set (check_intermediate_signature L root_ca intermediate)"
  "NonceMismatch \<notin> set (check_leaf_signature L intermediate leaf_cert)"
  "NonceMismatch \<notin> set (check_credential_id cred kid)"
  by (simp_all add: check_rp_id_hash_def check_flags_def check_sign_count_def check_aaguid_def
      check_intermediate_signature_def check_leaf_signature_def check_credential_id_def
      split: option.splits)

lemma check_nonce_extracted:
  assumes "nonce_extension leaf_cert = Inr payload"
    "extract_nonce_from_extension payload = Inr cert_nonce"
  shows "check_nonce L leaf_cert (PBytes ad) ch =
     (if cert_nonce = sha256 L (ad @ ch) \<or> cert_nonce = sha256 L (ad @ sha256 L ch)
      then [] else [NonceMismatch])"
  using assms by (simp add: check_nonce_def Let_def)

text \<open>
  Claim C5. When verification reaches the nonce check and the leaf certificate carries
  the extension with an extractable nonce, the check appends nothing if the nonce
  equals \<open>SHA-256(authData || challenge)\<close> or
  \<open>SHA-256(authData || SHA-256(challenge))\<close>, and appends the nonce mismatch error
  otherwise; that error is in the result's list exactly when neither candidate matches.
\<close>

theorem nonce_check_two_candidates:
  "container_fields L s att att_stmt (PBytes ad) x5c n \<and> 2 \<le> n \<and>
   parse_auth_data (PBytes ad) = Inr f \<and>
   certificates_loaded L x5c leaf_cert intermediate root_ca \<and> key_extracted leaf_cert xb yb \<and>
   nonce_extension leaf_cert = Inr payload \<and>
   extract_nonce_from_extension payload = Inr cert_nonce \<longrightarrow>
     check_nonce L leaf_cert (PBytes ad) ch =
       (if cert_nonce = sha256 L (ad @ ch) \<or> cert_nonce = sha256 L (ad @ sha256 L ch)
        then [] else [NonceMismatch]) \<and>
     (NonceMismatch \<in> set (errors (verify_attestation L s ch t b env)) \<longleftrightarrow>
        cert_nonce \<noteq> sha256 L (ad @ ch) \<and> cert_nonce \<noteq> sha256 L (ad @ sha256 L ch))"
proof (intro impI)
  assume h: "container_fields L s att att_stmt (PBytes ad) x5c n \<and> 2 \<le> n \<and>
   parse_auth_data (PBytes ad) = Inr f \<and>
   certificates_loaded L x5c leaf_cert intermediate root_ca \<and> key_extracted leaf_cert xb yb \<and>
   nonce_extension leaf_cert = Inr payload \<and>
   extract_nonce_from_extension payload = Inr cert_nonce"
  then have body: "attestation_body L s ch t b env
      = attestation_checks L ch t b env x5c (PBytes ad) f"
    using body_parse[of L s att att_stmt "PBytes ad" x5c n ch t b env] by simp
  from h have chk: "certificates_loaded L x5c leaf_cert intermediate root_ca"
    "key_extracted leaf_cert xb yb" by simp_all
  note r = checks_ec[OF chk, of ch t b env "PBytes ad" f]
  from h have ne: "nonce_extension leaf_cert = Inr payload"
    and ex: "extract_nonce_from_extension payload = Inr cert_nonce" by simp_all
  have cn: "check_nonce L leaf_cert (PBytes ad) ch =
       (if cert_nonce = sha256 L (ad @ ch) \<or> cert_nonce = sha256 L (ad @ sha256 L ch)
        then [] else [NonceMismatch])"
    by (rule check_nonce_extracted[OF ne ex])
  have "NonceMismatch \<in> set (errors (verify_attestation L s ch t b env)) \<longleftrightarrow>
      NonceMismatch \<in> set (check_nonce L leaf_cert (PBytes ad) ch)"
    by (simp add: verify_attestation_def body r NonceMismatch_not_in_checks)
  with cn show "check_nonce L leaf_cert (PBytes ad) ch =
       (if cert_nonce = sha256 L (ad @ ch) \<or> cert_nonce = sha256 L (ad @ sha256 L ch)
        then [] else [NonceMismatch]) \<and>
     (NonceMismatch \<in> set (errors (verify_attestation L s ch t b env)) \<longleftrightarrow>
        cert_nonce \<noteq> sha256 L (ad @ ch) \<and> cert_nonce \<noteq> sha256 L (ad @ sha256 L ch))"
    by simp
qed

lemma sample_digest_not_constant: "replicate 32 c \<noteq> sample_digest bs"
proof
  assume "replicate 32 c = sample_digest bs"
  then have "replicate 32 c ! 0 = sample_digest bs ! 0" "replicate 32 c ! 1 = sample_digest bs ! 1"
    by simp_all
  then show False by (simp add: sample_digest_def)
qed

lemma sample_nonce_extension:
  "nonce_extension (sample_leaf pk (Inr payload)) = Inr payload"
  by (simp add: sample_leaf_def)

theorem nonce_check_two_candidates_witness:
  "container_fields
     (sample_attestation sample_chain (sample_auth_data 0 32)
        (sample_leaf (EllipticCurvePublicKey 1 2)
           (Inr (sample_nonce_payload (sample_digest (sample_auth_data 0 32 @ sample_digest [0x63]))))))
     ''QQ'' (sample_container sample_chain (sample_auth_data 0 32))
     (PDict [(PStr ''x5c'', PList sample_chain)]) (PBytes (sample_auth_data 0 32))
     (PList sample_chain) 2 \<and>
   parse_auth_data (PBytes (sample_auth_data 0 32)) = Inr (sample_fields 0 32) \<and>
   extract_nonce_from_extension
     (sample_nonce_payload (sample_digest (sample_auth_data 0 32 @ sample_digest [0x63])))
     = Inr (sample_digest (sample_auth_data 0 32 @ sample_digest [0x63])) \<and>
   NonceMismatch \<notin> set (errors (verify_attestation
     (sample_attestation sample_chain (sample_auth_data 0 32)
        (sample_leaf (EllipticCurvePublicKey 1 2)
           (Inr (sample_nonce_payload (sample_digest (sample_auth_data 0 32 @ sample_digest [0x63]))))))
     ''QQ'' [0x63] ''T'' ''B'' ''dev'')) \<and>
   extract_nonce_from_extension (sample_nonce_payload (replicate 32 0)) = Inr (replicate 32 0) \<and>
   NonceMismatch \<in> set (errors (verify_attestation
     (sample_attestation sample_chain (sample_auth_data 0 32)
        (sample_leaf (EllipticCurvePublicKey 1 2) (Inr (sample_nonce_payload (replicate 32 0)))))
     ''QQ'' [0x63] ''T'' ''B'' ''dev''))"
proof -
  let ?ad = "sample_auth_data 0 32"
  let ?n2 = "sample_digest (?ad @ sample_digest [0x63])"
  let ?n0 = "replicate 32 (0::byte)"
  let ?leaf2 = "sample_leaf (EllipticCurvePublicKey 1 2) (Inr (sample_nonce_payload ?n2))"
  let ?leaf0 = "sample_leaf (EllipticCurvePublicKey 1 2) (Inr (sample_nonce_payload ?n0))"
  let ?xb = "replicate 31 0 @ [1::byte]"
  let ?yb = "replicate 31 0 @ [2::byte]"
  have l: "length sample_chain = 2" by (simp add: sample_chain_def)
  have cf: "container_fields (sample_attestation sample_chain ?ad leaf) ''QQ''
      (sample_container sample_chain ?ad) (PDict [(PStr ''x5c'', PList sample_chain)])
      (PBytes ?ad) (PList sample_chain) 2" for leaf
    using sample_container_fields[of sample_chain ?ad leaf] by (simp only: l)
  have pa: "parse_auth_data (PBytes ?ad) = Inr (sample_fields 0 32)"
    by (rule sample_parse_fields) simp_all
  have cl: "certificates_loaded (sample_attestation sample_chain ?ad leaf) (PList sample_chain)
      leaf sample_intermediate sample_root" for leaf
    unfolding sample_chain_def by (rule sample_certificates_loaded)
  have ke: "key_extracted (sample_leaf (EllipticCurvePublicKey 1 2) ext) ?xb ?yb" for ext
    by (rule sample_key_extracted)
  have e2: "extract_nonce_from_extension (sample_nonce_payload ?n2) = Inr ?n2"
    by (rule sample_extract) simp
  have e0: "extract_nonce_from_extension (sample_nonce_payload ?n0) = Inr ?n0"
    by (rule sample_extract) simp
  have two: "(2::nat) \<le> 2" by simp
  note t2 = nonce_check_two_candidates[where L = "sample_attestation sample_chain ?ad ?leaf2"
      and s = "''QQ''" and ch = "[0x63]" and t = "''T''" and b = "''B''" and env = "''dev''"
      and att = "sample_container sample_chain ?ad"
      and att_stmt = "PDict [(PStr ''x5c'', PList sample_chain)]" and ad = ?ad
      and ?x5c.0 = "PList sample_chain" and n = 2 and f = "sample_fields 0 32" and leaf_cert = ?leaf2
      and intermediate = sample_intermediate and root_ca = sample_root and xb = ?xb and yb = ?yb
      and payload = "sample_nonce_payload ?n2" and cert_nonce = ?n2]
  note t0 = nonce_check_two_candidates[where L = "sample_attestation sample_chain ?ad ?leaf0"
      and s = "''QQ''" and ch = "[0x63]" and t = "''T''" and b = "''B''" and env = "''dev''"
      and att = "sample_container sample_chain ?ad"
      and att_stmt = "PDict [(PStr ''x5c'', PList sample_chain)]" and ad = ?ad
      and ?x5c.0 = "PList sample_chain" and n = 2 and f = "sample_fields 0 32" and leaf_cert = ?leaf0
      and intermediate = sample_intermediate and root_ca = sample_root and xb = ?xb and yb = ?yb
      and payload = "sample_nonce_payload ?n0" and cert_nonce = ?n0]
  have r2: "NonceMismatch \<notin> set (errors (verify_attestation
      (sample_attestation sample_chain ?ad ?leaf2) ''QQ'' [0x63] ''T'' ''B'' ''dev''))"
    using t2 cf[of ?leaf2] two pa cl[of ?leaf2] ke e2 sample_nonce_extension
    by (simp only: sample_sha256) blast
  have r0: "NonceMismatch \<in> set (errors (verify_attestation
      (sample_attestation sample_chain ?ad ?leaf0) ''QQ'' [0x63] ''T'' ''B'' ''dev''))"
    using t0 cf[of ?leaf0] two pa cl[of ?leaf0] ke e0 sample_nonce_extension
      sample_digest_not_constant[of 0]
    by (simp only: sample_sha256) blast
  show ?thesis by (intro conjI cf pa e2 r2 e0 r0)
qed

lemma verify_attestation_all_checks:
  assumes "container_fields L s att att_stmt auth x5c n" "2 \<le> n" "parse_auth_data auth = Inr f"
    "certificates_loaded L x5c leaf_cert intermediate root_ca" "key_extracted leaf_cert xb yb"
  shows "verify_attestation L s ch t b env =
     \<lparr>ok = (check_rp_id_hash L t b (rp_id_hash f) @ check_flags (flags f)
                 @ check_sign_count (sign_count f) @ check_aaguid env (aaguid f)
                 @ check_intermediate_signature L root_ca intermediate
                 @ check_leaf_signature L intermediate leaf_cert
                 @ check_credential_id (cred_id f) (sha256 L ([0x04] @ xb @ yb))
                 @ check_nonce L leaf_cert auth ch = []),
          public_key_uncompressed = Some ([0x04] @ xb @ yb),
          public_key_x = Some xb, public_key_y = Some yb,
          key_id = Some (sha256 L ([0x04] @ xb @ yb)),
          key_id_b64 = Some (b64encode L (sha256 L ([0x04] @ xb @ yb))),
          credential_id = Some (cred_id f),
          errors = check_rp_id_hash L t b (rp_id_hash f) @ check_flags (flags f)
                 @ check_sign_count (sign_count f) @ check_aaguid env (aaguid f)
                 @ check_intermediate_signature L root_ca intermediate
                 @ check_leaf_signature L intermediate leaf_cert
                 @ check_credential_id (cred_id f) (sha256 L ([0x04] @ xb @ yb))
                 @ check_nonce L leaf_cert auth ch\<rparr>"
proof -
  have "attestation_body L s ch t b env = attestation_checks L ch t b env x5c auth f"
    using body_parse[OF assms(1,2), of ch t b env] assms(3) by simp
  then show ?thesis
    by (simp add: verify_attestation_def checks_ec[OF assms(4,5)])
qed

lemma verify_attestation_not_ec:
  assumes "container_fields L s att att_stmt auth x5c n" "2 \<le> n" "parse_auth_data auth = Inr f"
    "certificates_loaded L x5c leaf_cert intermediate root_ca"
    "public_key leaf_cert = Inr (OtherPublicKey kind)"
  shows "verify_attestation L s ch t b env =
     failed (Some (cred_id f))
       (check_rp_id_hash L t b (rp_id_hash f) @ check_flags (flags f)
          @ check_sign_count (sign_count f) @ check_aaguid env (aaguid f)
          @ check_intermediate_signature L root_ca intermediate
          @ check_leaf_signature L intermediate leaf_cert
          @ [LeafKeyNotEC])"
proof -
  have "attestation_body L s ch t b env = attestation_checks L ch t b env x5c auth f"
    using body_parse[OF assms(1,2), of ch t b env] assms(3) by simp
  then show ?thesis
    by (simp add: verify_attestation_def checks_other[OF assms(4,5)])
qed

text \<open>
  Claim C8, as the code has it. When the key of the leaf certificate is not an
  elliptic-curve key, the error for it is appended after the errors of the six earlier
  checks and \<open>verify_attestation\<close> returns at once: the result has \<open>ok = False\<close>, the
  \<open>credentialId\<close> read from \<open>authData\<close> and no key fields, and the credential binding
  and the nonce are not checked.
\<close>

theorem leaf_key_not_ec_returns:
  "container_fields L s att att_stmt auth x5c n \<and> 2 \<le> n \<and> parse_auth_data auth = Inr f \<and>
   certificates_loaded L x5c leaf_cert intermediate root_ca \<and>
   public_key leaf_cert = Inr (OtherPublicKey kind) \<longrightarrow>
     verify_attestation L s ch t b env =
       failed (Some (cred_id f))
         (check_rp_id_hash L t b (rp_id_hash f) @ check_flags (flags f)
            @ check_sign_count (sign_count f) @ check_aaguid env (aaguid f)
            @ check_intermediate_signature L root_ca intermediate
            @ check_leaf_signature L intermediate leaf_cert
            @ [LeafKeyNotEC])"
  using verify_attestation_not_ec[of L s att att_stmt auth x5c n f leaf_cert intermediate root_ca kind]
  by blast

lemma sample_not_ec:
  "verify_attestation
     (sample_attestation sample_chain (sample_auth_data 0 32)
        (sample_leaf (OtherPublicKey ''rsa'') (Inl ExtensionNotFound)))
     ''QQ'' [0x63] ''T'' ''B'' ''dev'' = failed (Some sample_key_id) [LeafKeyNotEC]"
proof -
  let ?ad = "sample_auth_data 0 32"
  let ?leaf = "sample_leaf (OtherPublicKey ''rsa'') (Inl ExtensionNotFound)"
  let ?L = "sample_attestation sample_chain ?ad ?leaf"
  have l: "length sample_chain = 2" by (simp add: sample_chain_def)
  have cf: "container_fields ?L ''QQ'' (sample_container sample_chain ?ad)
      (PDict [(PStr ''x5c'', PList sample_chain)]) (PBytes ?ad) (PList sample_chain) 2"
    using sample_container_fields[of sample_chain ?ad ?leaf] by (simp only: l)
  have pa: "parse_auth_data (PBytes ?ad) = Inr (sample_fields 0 32)"
    by (rule sample_parse_fields) simp_all
  have cl: "certificates_loaded ?L (PList sample_chain) ?leaf sample_intermediate sample_root"
    unfolding sample_chain_def by (rule sample_certificates_loaded)
  have pk: "public_key ?leaf = Inr (OtherPublicKey ''rsa'')" by (simp add: sample_leaf_def)
  have kid: "take 32 sample_key_id = sample_key_id" by (simp add: length_sample_key_id)
  show ?thesis
    unfolding verify_attestation_not_ec[OF cf _ pa cl pk, of "[0x63]" "''T''" "''B''" "''dev''", simplified]
    by (simp add: sample_fields_def sample_check_rp sample_check_flags sample_check_aaguid
        sample_check_intermediate sample_check_leaf check_sign_count_def kid)
qed

theorem leaf_key_not_ec_returns_witness:
  "container_fields
     (sample_attestation sample_chain (sample_auth_data 0 32)
        (sample_leaf (OtherPublicKey ''rsa'') (Inl ExtensionNotFound)))
     ''QQ'' (sample_container sample_chain (sample_auth_data 0 32))
     (PDict [(PStr ''x5c'', PList sample_chain)]) (PBytes (sample_auth_data 0 32))
     (PList sample_chain) 2 \<and>
   (2::nat) \<le> 2 \<and>
   parse_auth_data (PBytes (sample_auth_data 0 32)) = Inr (sample_fields 0 32) \<and>
   certificates_loaded
     (sample_attestation sample_chain (sample_auth_data 0 32)
        (sample_leaf (OtherPublicKey ''rsa'') (Inl ExtensionNotFound)))
     (PList sample_chain) (sample_leaf (OtherPublicKey ''rsa'') (Inl ExtensionNotFound))
     sample_intermediate sample_root \<and>
   public_key (sample_leaf (OtherPublicKey ''rsa'') (Inl ExtensionNotFound))
     = Inr (OtherPublicKey ''rsa'') \<and>
   verify_attestation
     (sample_attestation sample_chain (sample_auth_data 0 32)
        (sample_leaf (OtherPublicKey ''rsa'') (Inl ExtensionNotFound)))
     ''QQ'' [0x63] ''T'' ''B'' ''dev''
     = failed (Some (cred_id (sample_fields 0 32))) [LeafKeyNotEC]"
proof -
  let ?ad = "sample_auth_data 0 32"
  let ?leaf = "sample_leaf (OtherPublicKey ''rsa'') (Inl ExtensionNotFound)"
  let ?L = "sample_attestation sample_chain ?ad ?leaf"
  have l: "length sample_chain = 2" by (simp add: sample_chain_def)
  have cf: "container_fields ?L ''QQ'' (sample_container sample_chain ?ad)
      (PDict [(PStr ''x5c'', PList sample_chain)]) (PBytes ?ad) (PList sample_chain) 2"
    using sample_container_fields[of sample_chain ?ad ?leaf] by (simp only: l)
  have two: "(2::nat) \<le> 2" by simp
  have pa: "parse_auth_data (PBytes ?ad) = Inr (sample_fields 0 32)"
    by (rule sample_parse_fields) simp_all
  have cl: "certificates_loaded ?L (PList sample_chain) ?leaf sample_intermediate sample_root"
    unfolding sample_chain_def by (rule sample_certificates_loaded)
  have pk: "public_key ?leaf = Inr (OtherPublicKey ''rsa'')" by (simp add: sample_leaf_def)
  note t = leaf_key_not_ec_returns[where L = ?L and s = "''QQ''" and ch = "[0x63]"
      and t = "''T''" and b = "''B''" and env = "''dev''" and att = "sample_container sample_chain ?ad"
      and att_stmt = "PDict [(PStr ''x5c'', PList sample_chain)]" and auth = "PBytes ?ad"
      and ?x5c.0 = "PList sample_chain" and n = 2 and f = "sample_fields 0 32" and leaf_cert = ?leaf
      and intermediate = sample_intermediate and root_ca = sample_root and kind = "''rsa''"]
  have c: "check_rp_id_hash ?L ''T'' ''B'' (rp_id_hash (sample_fields 0 32)) @ check_flags (flags (sample_fields 0 32))
            @ check_sign_count (sign_count (sample_fields 0 32)) @ check_aaguid ''dev'' (aaguid (sample_fields 0 32))
            @ check_intermediate_signature ?L sample_root sample_intermediate
            @ check_leaf_signature ?L sample_intermediate ?leaf
            @ [LeafKeyNotEC] = [LeafKeyNotEC]"
    by (simp add: sample_fields_def sample_check_rp sample_check_flags sample_check_aaguid
        sample_check_intermediate sample_check_leaf check_sign_count_def)
  from t cf two pa cl pk have r: "verify_attestation ?L ''QQ'' [0x63] ''T'' ''B'' ''dev''
     = failed (Some (cred_id (sample_fields 0 32))) [LeafKeyNotEC]"
    unfolding c by blast
  show ?thesis by (intro conjI cf two pa cl pk r)
qed

theorem leaf_key_not_ec_skips_nonce_check:
  "errors (verify_attestation
     (sample_attestation sample_chain (sample_auth_data 0 32)
        (sample_leaf (OtherPublicKey ''rsa'') (Inl ExtensionNotFound)))
     ''QQ'' [0x63] ''T'' ''B'' ''dev'') = [LeafKeyNotEC] \<and>
   check_nonce
     (sample_attestation sample_chain (sample_auth_data 0 32)
        (sample_leaf (OtherPublicKey ''rsa'') (Inl ExtensionNotFound)))
     (sample_leaf (OtherPublicKey ''rsa'') (Inl ExtensionNotFound))
     (PBytes (sample_auth_data 0 32)) [0x63] = [NonceExtensionNotFound]"
proof
  show "errors (verify_attestation
     (sample_attestation sample_chain (sample_auth_data 0 32)
        (sample_leaf (OtherPublicKey ''rsa'') (Inl ExtensionNotFound)))
     ''QQ'' [0x63] ''T'' ''B'' ''dev'') = [LeafKeyNotEC]"
    unfolding sample_not_ec by (simp add: failed_def)
  show "check_nonce
     (sample_attestation sample_chain (sample_auth_data 0 32)
        (sample_leaf (OtherPublicKey ''rsa'') (Inl ExtensionNotFound)))
     (sample_leaf (OtherPublicKey ''rsa'') (Inl ExtensionNotFound))
     (PBytes (sample_auth_data 0 32)) [0x63] = [NonceExtensionNotFound]"
    by (simp add: check_nonce_def sample_leaf_def nonce_handler_def)
qed

lemma ChainTooShort_not_in_checks:
  "ChainTooShort \<notin> set (check_rp_id_hash L t b rp)"
  "ChainTooShort \<notin> set (check_flags fl)"
  "ChainTooShort \<notin> set (check_sign_count sc)"
  "ChainTooShort \<notin> set (check_aaguid env ag)"
  "ChainTooShort \<notin> set (check_intermediate_signature L root_ca intermediate)"
  "ChainTooShort \<notin> set (check_leaf_signature L intermediate leaf_cert)"
  "ChainTooShort \<notin> set (check_credential_id cred kid)"
  by (simp_all add: check_rp_id_hash_def check_flags_def check_sign_count_def check_aaguid_def
      check_intermediate_signature_def check_leaf_signature_def check_credential_id_def
      split: option.splits)

lemma ChainTooShort_not_in_check_nonce:
  "ChainTooShort \<notin> set (check_nonce L leaf_cert auth ch)"
  by (auto simp: check_nonce_def nonce_handler_def bind_exn_def Let_def split: sum.splits if_splits)

lemma checks_no_ChainTooShort:
  "attestation_checks L ch t b env x5c auth f = Inr r \<Longrightarrow> ChainTooShort \<notin> set (errors r)"
  "attestation_checks L ch t b env x5c auth f = Inl (errs, e) \<Longrightarrow> ChainTooShort \<notin> set errs"
  by (auto simp: attestation_checks_def Let_def failed_def ChainTooShort_not_in_checks
           ChainTooShort_not_in_check_nonce
           split: sum.splits pubkey.splits prod.splits)

lemma verify_attestation_chain_short:
  assumes "container_fields L s att att_stmt auth x5c n" "n < 2"
  shows "verify_attestation L s ch t b env = failed None [ChainTooShort]"
  by (simp add: verify_attestation_def body_chain_short[OF assms])

lemma verify_attestation_chain_long:
  assumes "container_fields L s att att_stmt auth x5c n" "2 \<le> n"
  shows "ChainTooShort \<notin> set (errors (verify_attestation L s ch t b env))"
proof (cases "parse_auth_data auth")
  case (Inl e)
  then show ?thesis
    by (simp add: verify_attestation_def body_parse[OF assms] failed_def)
next
  case (Inr f)
  then have b: "attestation_body L s ch t b env = attestation_checks L ch t b env x5c auth f"
    by (simp add: body_parse[OF assms])
  show ?thesis
  proof (cases "attestation_checks L ch t b env x5c auth f")
    case (Inl p)
    then obtain errs e where "attestation_checks L ch t b env x5c auth f = Inl (errs, e)"
      by (cases p) simp
    then show ?thesis
      using checks_no_ChainTooShort(2)[of L ch t b env x5c auth f errs e]
      by (simp add: verify_attestation_def b failed_def)
  next
    case (Inr r)
    then show ?thesis
      using checks_no_ChainTooShort(1)[of L ch t b env x5c auth f r]
      by (simp add: verify_attestation_def b)
  qed
qed

text \<open>
  Claim C1, as the code has it. On a readable container whose chain has fewer than 2
  entries, \<open>verify_attestation\<close> records the chain error at once and returns with
  \<open>ok = False\<close> and that single error, with no further check. A chain of 2 or more
  entries is never rejected for its length: the chain error is not in the result.
\<close>

theorem chain_too_short_is_immediate:
  "(container_fields L s att att_stmt auth x5c n \<and> n < 2 \<longrightarrow>
      verify_attestation L s ch t b env = failed None [ChainTooShort]) \<and>
   (container_fields L' s' att' att_stmt' auth' x5c' n' \<and> 2 \<le> n' \<longrightarrow>
      ChainTooShort \<notin> set (errors (verify_attestation L' s' ch' t' b' env')))"
  using verify_attestation_chain_short[of L s att att_stmt auth x5c n ch t b env]
    verify_attestation_chain_long[of L' s' att' att_stmt' auth' x5c' n' ch' t' b' env']
  by blast

lemma sample_verify_ok:
  assumes "PList chain = PList (PBytes [0x4c] # PBytes [0x49] # rest)" "n < 256" "32 \<le> n"
  shows "verify_attestation (sample_attestation chain (sample_auth_data 0 n) (good_leaf 0 n))
           ''QQ'' [0x63] ''T'' ''B'' ''dev''
     = \<lparr>ok = True, public_key_uncompressed = Some ([0x04] @ (replicate 31 0 @ [1]) @ (replicate 31 0 @ [2])),
        public_key_x = Some (replicate 31 0 @ [1]), public_key_y = Some (replicate 31 0 @ [2]),
        key_id = Some sample_key_id,
        key_id_b64 = Some (b64encode (sample_attestation chain (sample_auth_data 0 n) (good_leaf 0 n)) sample_key_id),
        credential_id = Some sample_key_id, errors = []\<rparr>"
proof -
  let ?ad = "sample_auth_data 0 n"
  let ?leaf = "good_leaf 0 n"
  let ?L = "sample_attestation chain ?ad ?leaf"
  let ?xb = "replicate 31 0 @ [1::byte]"
  let ?yb = "replicate 31 0 @ [2::byte]"
  have cf: "container_fields ?L ''QQ'' (sample_container chain ?ad)
      (PDict [(PStr ''x5c'', PList chain)]) (PBytes ?ad) (PList chain) (length chain)"
    by (rule sample_container_fields)
  have len: "2 \<le> length chain" using assms(1) by simp
  have pa: "parse_auth_data (PBytes ?ad) = Inr (sample_fields 0 n)"
    by (rule sample_parse_fields) (use assms in simp_all)
  have cl: "certificates_loaded ?L (PList chain) ?leaf sample_intermediate sample_root"
    unfolding assms(1) by (rule sample_certificates_loaded)
  have ke: "key_extracted ?leaf ?xb ?yb"
    unfolding good_leaf_def by (rule sample_key_extracted)
  have kid: "take n sample_key_id = sample_key_id" using assms(3) by (simp add: length_sample_key_id)
  have k2: "sample_digest ([0x04] @ ?xb @ ?yb) = sample_key_id" by (simp add: sample_key_id_def)
  have c5: "check_leaf_signature ?L sample_intermediate ?leaf = []"
    unfolding good_leaf_def by (rule sample_check_leaf)
  show ?thesis
    unfolding verify_attestation_all_checks[OF cf len pa cl ke, of "[0x63]" "''T''" "''B''" "''dev''"]
    by (simp add: sample_fields_def sample_check_rp sample_check_flags sample_check_aaguid
        sample_check_intermediate c5 sample_check_nonce check_sign_count_def kid
        k2[simplified] check_credential_id_def)
qed

theorem chain_too_short_is_immediate_witness:
  "container_fields
     (sample_attestation [PBytes [0x4c]] (sample_auth_data 0 32) (good_leaf 0 32)) ''QQ''
     (sample_container [PBytes [0x4c]] (sample_auth_data 0 32))
     (PDict [(PStr ''x5c'', PList [PBytes [0x4c]])]) (PBytes (sample_auth_data 0 32))
     (PList [PBytes [0x4c]]) 1 \<and>
   (1::nat) < 2 \<and>
   verify_attestation
     (sample_attestation [PBytes [0x4c]] (sample_auth_data 0 32) (good_leaf 0 32))
     ''QQ'' [0x63] ''T'' ''B'' ''dev'' = failed None [ChainTooShort] \<and>
   container_fields
     (sample_attestation [PBytes [0x4c], PBytes [0x49], PBytes [0x55]] (sample_auth_data 0 32)
        (good_leaf 0 32)) ''QQ''
     (sample_container [PBytes [0x4c], PBytes [0x49], PBytes [0x55]] (sample_auth_data 0 32))
     (PDict [(PStr ''x5c'', PList [PBytes [0x4c], PBytes [0x49], PBytes [0x55]])])
     (PBytes (sample_auth_data 0 32))
     (PList [PBytes [0x4c], PBytes [0x49], PBytes [0x55]]) 3 \<and>
   (2::nat) \<le> 3 \<and>
   ChainTooShort \<notin> set (errors (verify_attestation
     (sample_attestation [PBytes [0x4c], PBytes [0x49], PBytes [0x55]] (sample_auth_data 0 32)
        (good_leaf 0 32))
     ''QQ'' [0x63] ''T'' ''B'' ''dev''))"
proof -
  let ?ad = "sample_auth_data 0 32"
  let ?c1 = "[PBytes [0x4c]]"
  let ?c3 = "[PBytes [0x4c], PBytes [0x49], PBytes [0x55]]"
  have l1: "length ?c1 = 1" by simp
  have l3: "length ?c3 = 3" by simp
  have cf1: "container_fields (sample_attestation ?c1 ?ad (good_leaf 0 32)) ''QQ''
      (sample_container ?c1 ?ad) (PDict [(PStr ''x5c'', PList ?c1)]) (PBytes ?ad) (PList ?c1) 1"
    using sample_container_fields[of ?c1 ?ad "good_leaf 0 32"] by (simp only: l1)
  have cf3: "container_fields (sample_attestation ?c3 ?ad (good_leaf 0 32)) ''QQ''
      (sample_container ?c3 ?ad) (PDict [(PStr ''x5c'', PList ?c3)]) (PBytes ?ad) (PList ?c3) 3"
    using sample_container_fields[of ?c3 ?ad "good_leaf 0 32"] by (simp only: l3)
  have a: "(1::nat) < 2" and b: "(2::nat) \<le> 3" by simp_all
  note t = chain_too_short_is_immediate[where L = "sample_attestation ?c1 ?ad (good_leaf 0 32)"
      and s = "''QQ''" and att = "sample_container ?c1 ?ad"
      and att_stmt = "PDict [(PStr ''x5c'', PList ?c1)]" and auth = "PBytes ?ad"
      and ?x5c.0 = "PList ?c1" and n = 1 and ch = "[0x63]" and t = "''T''" and b = "''B''"
      and env = "''dev''"
      and L' = "sample_attestation ?c3 ?ad (good_leaf 0 32)"
      and s' = "''QQ''" and att' = "sample_container ?c3 ?ad"
      and att_stmt' = "PDict [(PStr ''x5c'', PList ?c3)]" and auth' = "PBytes ?ad"
      and x5c' = "PList ?c3" and n' = 3 and ch' = "[0x63]" and t' = "''T''" and b' = "''B''"
      and env' = "''dev''"]
  from t cf1 a have r1: "verify_attestation (sample_attestation ?c1 ?ad (good_leaf 0 32))
      ''QQ'' [0x63] ''T'' ''B'' ''dev'' = failed None [ChainTooShort]" by blast
  from t cf3 b have r3: "ChainTooShort \<notin> set (errors (verify_attestation
      (sample_attestation ?c3 ?ad (good_leaf 0 32)) ''QQ'' [0x63] ''T'' ''B'' ''dev''))" by blast
  show ?thesis by (intro conjI cf1 a r1 cf3 b r3)
qed

theorem chain_of_three_is_accepted:
  "py_len (PList [PBytes [0x4c], PBytes [0x49], PBytes [0x55]]) = Inr 3 \<and>
   ok (verify_attestation
     (sample_attestation [PBytes [0x4c], PBytes [0x49], PBytes [0x55]] (sample_auth_data 0 32)
        (good_leaf 0 32))
     ''QQ'' [0x63] ''T'' ''B'' ''dev'') \<and>
   errors (verify_attestation
     (sample_attestation [PBytes [0x4c], PBytes [0x49], PBytes [0x55]] (sample_auth_data 0 32)
        (good_leaf 0 32))
     ''QQ'' [0x63] ''T'' ''B'' ''dev'') = []"
proof -
  have r: "verify_attestation
     (sample_attestation [PBytes [0x4c], PBytes [0x49], PBytes [0x55]] (sample_auth_data 0 32)
        (good_leaf 0 32))
     ''QQ'' [0x63] ''T'' ''B'' ''dev''
     = \<lparr>ok = True, public_key_uncompressed = Some ([0x04] @ (replicate 31 0 @ [1]) @ (replicate 31 0 @ [2])),
        public_key_x = Some (replicate 31 0 @ [1]), public_key_y = Some (replicate 31 0 @ [2]),
        key_id = Some sample_key_id,
        key_id_b64 = Some (b64encode (sample_attestation [PBytes [0x4c], PBytes [0x49], PBytes [0x55]]
            (sample_auth_data 0 32) (good_leaf 0 32)) sample_key_id),
        credential_id = Some sample_key_id, errors = []\<rparr>"
    by (rule sample_verify_ok[where rest = "[PBytes [0x55]]"]) simp_all
  show ?thesis unfolding r by simp
qed

lemma parse_auth_bytes_short:
  "length ad < 55 \<Longrightarrow>
   parse_auth_bytes ad = Inl (if length ad \<le> 32 then IndexError else StructError)"
  by (auto simp: parse_auth_bytes_def struct_unpack_be_def bind_exn_def min_def split: sum.splits)

lemma parse_auth_bytes_long:
  "55 \<le> length ad \<Longrightarrow>
   parse_auth_bytes ad =
     Inr \<lparr>rp_id_hash = take 32 ad, flags = ad ! 32,
          sign_count = int_from_bytes_big (take 4 (drop 33 ad)),
          aaguid = take 16 (drop 37 ad),
          cred_id_len = int_from_bytes_big (take 2 (drop 53 ad)),
          cred_id = take (int_from_bytes_big (take 2 (drop 53 ad))) (drop 55 ad)\<rparr>"
  by (auto simp: parse_auth_bytes_def struct_unpack_be_def min_def)

lemma length_sample_auth_data: "length (sample_auth_data sc n) = 87"
  by (simp add: sample_auth_data_def sample_key_id_def encode_def)

lemma verify_attestation_parse_error:
  assumes "container_fields L s att att_stmt auth x5c n" "2 \<le> n" "parse_auth_data auth = Inl e"
  shows "verify_attestation L s ch t b env = failed None [ParseError e]"
  by (simp add: verify_attestation_def body_parse[OF assms(1,2)] assms(3))

text \<open>
  Claim C3, as the code has it. An \<open>authenticatorData\<close> buffer shorter than 55 bytes
  makes the parsing raise (\<open>IndexError\<close> up to 32 bytes, \<open>struct.error\<close> above), and
  \<open>verify_attestation\<close> then returns \<open>ok = False\<close> with the parse error as its only
  error. A buffer of 55 bytes or more always parses: \<open>credentialIdLen\<close> is the
  big-endian number in bytes 53 and 54, and \<open>credentialId\<close> is the slice
  \<open>bytes[55 : 55 + credentialIdLen]\<close>, which holds the bytes that are there, at most
  \<open>credentialIdLen\<close> of them.
\<close>

theorem auth_data_parsing_bounds:
  "(length ad < 55 \<longrightarrow>
      parse_auth_data (PBytes ad) = Inl (if length ad \<le> 32 then IndexError else StructError) \<and>
      (container_fields L s att att_stmt (PBytes ad) x5c n \<and> 2 \<le> n \<longrightarrow>
         verify_attestation L s ch t b env
           = failed None [ParseError (if length ad \<le> 32 then IndexError else StructError)])) \<and>
   (55 \<le> length ad' \<longrightarrow>
      (\<exists>f. parse_auth_data (PBytes ad') = Inr f \<and>
           cred_id_len f = int_from_bytes_big (take 2 (drop 53 ad')) \<and>
           cred_id f = take (cred_id_len f) (drop 55 ad') \<and>
           length (cred_id f) = min (cred_id_len f) (length ad' - 55)))"
proof (intro conjI impI)
  assume s: "length ad < 55"
  then show p: "parse_auth_data (PBytes ad) = Inl (if length ad \<le> 32 then IndexError else StructError)"
    by (simp only: parse_auth_data.simps parse_auth_bytes_short)
  assume "container_fields L s att att_stmt (PBytes ad) x5c n \<and> 2 \<le> n"
  then show "verify_attestation L s ch t b env
           = failed None [ParseError (if length ad \<le> 32 then IndexError else StructError)]"
    using verify_attestation_parse_error[OF _ _ p, of L s att att_stmt x5c n ch t b env] by blast
next
  assume "55 \<le> length ad'"
  then show "\<exists>f. parse_auth_data (PBytes ad') = Inr f \<and>
           cred_id_len f = int_from_bytes_big (take 2 (drop 53 ad')) \<and>
           cred_id f = take (cred_id_len f) (drop 55 ad') \<and>
           length (cred_id f) = min (cred_id_len f) (length ad' - 55)"
    by (simp add: parse_auth_bytes_long min.commute)
qed

theorem auth_data_parsing_bounds_witness:
  "length (replicate 54 (0::byte)) < 55 \<and>
   parse_auth_data (PBytes (replicate 54 0)) = Inl StructError \<and>
   container_fields (sample_attestation sample_chain (replicate 54 0) (good_leaf 0 32)) ''QQ''
     (sample_container sample_chain (replicate 54 0))
     (PDict [(PStr ''x5c'', PList sample_chain)]) (PBytes (replicate 54 0))
     (PList sample_chain) 2 \<and>
   (2::nat) \<le> 2 \<and>
   verify_attestation (sample_attestation sample_chain (replicate 54 0) (good_leaf 0 32))
     ''QQ'' [0x63] ''T'' ''B'' ''dev'' = failed None [ParseError StructError] \<and>
   55 \<le> length (sample_auth_data 0 64) \<and>
   (\<exists>f. parse_auth_data (PBytes (sample_auth_data 0 64)) = Inr f \<and>
        cred_id_len f = int_from_bytes_big (take 2 (drop 53 (sample_auth_data 0 64))) \<and>
        cred_id f = take (cred_id_len f) (drop 55 (sample_auth_data 0 64)) \<and>
        length (cred_id f) = min (cred_id_len f) (length (sample_auth_data 0 64) - 55))"
proof -
  let ?ad = "replicate 54 (0::byte)"
  let ?L = "sample_attestation sample_chain ?ad (good_leaf 0 32)"
  have l: "length sample_chain = 2" by (simp add: sample_chain_def)
  have s: "length ?ad < 55" by simp
  have ns: "\<not> length ?ad \<le> 32" by simp
  have cf: "container_fields ?L ''QQ'' (sample_container sample_chain ?ad)
      (PDict [(PStr ''x5c'', PList sample_chain)]) (PBytes ?ad) (PList sample_chain) 2"
    using sample_container_fields[of sample_chain ?ad "good_leaf 0 32"] by (simp only: l)
  have two: "(2::nat) \<le> 2" by simp
  have g: "55 \<le> length (sample_auth_data 0 64)" by (simp add: length_sample_auth_data)
  note t = auth_data_parsing_bounds[where ad = ?ad and L = ?L and s = "''QQ''"
      and att = "sample_container sample_chain ?ad"
      and att_stmt = "PDict [(PStr ''x5c'', PList sample_chain)]" and ?x5c.0 = "PList sample_chain"
      and n = 2 and ch = "[0x63]" and t = "''T''" and b = "''B''" and env = "''dev''"
      and ad' = "sample_auth_data 0 64"]
  from t s have p: "parse_auth_data (PBytes ?ad) = Inl (if length ?ad \<le> 32 then IndexError else StructError)"
    by blast
  then have p': "parse_auth_data (PBytes ?ad) = Inl StructError" by (simp only: ns if_False)
  from t s cf two have "verify_attestation ?L ''QQ'' [0x63] ''T'' ''B'' ''dev''
      = failed None [ParseError (if length ?ad \<le> 32 then IndexError else StructError)]"
    by blast
  then have r: "verify_attestation ?L ''QQ'' [0x63] ''T'' ''B'' ''dev''
      = failed None [ParseError StructError]" by (simp only: ns if_False)
  from t g have e: "\<exists>f. parse_auth_data (PBytes (sample_auth_data 0 64)) = Inr f \<and>
        cred_id_len f = int_from_bytes_big (take 2 (drop 53 (sample_auth_data 0 64))) \<and>
        cred_id f = take (cred_id_len f) (drop 55 (sample_auth_data 0 64)) \<and>
        length (cred_id f) = min (cred_id_len f) (length (sample_auth_data 0 64) - 55)"
    by blast
  show ?thesis by (intro conjI s p' cf two r g e)
qed

theorem truncated_credential_id_is_accepted:
  "length (sample_auth_data 0 64) = 87 \<and>
   parse_auth_data (PBytes (sample_auth_data 0 64)) = Inr (sample_fields 0 64) \<and>
   cred_id_len (sample_fields 0 64) = 64 \<and>
   length (cred_id (sample_fields 0 64)) = 32 \<and>
   ok (verify_attestation
         (sample_attestation sample_chain (sample_auth_data 0 64) (good_leaf 0 64))
         ''QQ'' [0x63] ''T'' ''B'' ''dev'') \<and>
   errors (verify_attestation
         (sample_attestation sample_chain (sample_auth_data 0 64) (good_leaf 0 64))
         ''QQ'' [0x63] ''T'' ''B'' ''dev'') = [] \<and>
   credential_id (verify_attestation
         (sample_attestation sample_chain (sample_auth_data 0 64) (good_leaf 0 64))
         ''QQ'' [0x63] ''T'' ''B'' ''dev'') = Some (cred_id (sample_fields 0 64))"
proof -
  have pa: "parse_auth_data (PBytes (sample_auth_data 0 64)) = Inr (sample_fields 0 64)"
    by (rule sample_parse_fields) simp_all
  have kid: "take 64 sample_key_id = sample_key_id" by (simp add: length_sample_key_id)
  have r: "verify_attestation
     (sample_attestation sample_chain (sample_auth_data 0 64) (good_leaf 0 64))
     ''QQ'' [0x63] ''T'' ''B'' ''dev''
     = \<lparr>ok = True, public_key_uncompressed = Some ([0x04] @ (replicate 31 0 @ [1]) @ (replicate 31 0 @ [2])),
        public_key_x = Some (replicate 31 0 @ [1]), public_key_y = Some (replicate 31 0 @ [2]),
        key_id = Some sample_key_id,
        key_id_b64 = Some (b64encode (sample_attestation sample_chain
            (sample_auth_data 0 64) (good_leaf 0 64)) sample_key_id),
        credential_id = Some sample_key_id, errors = []\<rparr>"
    by (rule sample_verify_ok[where rest = "[]"]) (simp_all add: sample_chain_def)
  have l: "length (sample_auth_data 0 64) = 87" by (rule length_sample_auth_data)
  have c1: "cred_id_len (sample_fields 0 64) = 64" by (simp add: sample_fields_def)
  have c2: "length (cred_id (sample_fields 0 64)) = 32"
    by (simp add: sample_fields_def length_sample_key_id)
  have o: "ok (verify_attestation
         (sample_attestation sample_chain (sample_auth_data 0 64) (good_leaf 0 64))
         ''QQ'' [0x63] ''T'' ''B'' ''dev'')"
    unfolding r by simp
  have e: "errors (verify_attestation
         (sample_attestation sample_chain (sample_auth_data 0 64) (good_leaf 0 64))
         ''QQ'' [0x63] ''T'' ''B'' ''dev'') = []"
    unfolding r by simp
  have c: "credential_id (verify_attestation
         (sample_attestation sample_chain (sample_auth_data 0 64) (good_leaf 0 64))
         ''QQ'' [0x63] ''T'' ''B'' ''dev'') = Some (cred_id (sample_fields 0 64))"
    unfolding r by (simp add: sample_fields_def kid)
  show ?thesis by (intro conjI l pa c1 c2 o e c)
qed

lemma verify_signed_by_readable:
  "public_key issuer = Inr pk \<Longrightarrow> signature_hash_algorithm subject = Inr alg \<Longrightarrow>
   verify_signed_by L issuer subject
     = ecdsa_verify L pk (PBytes (signature subject)) (tbs_certificate_bytes subject) alg"
  by (simp add: verify_signed_by_def)

lemma check_nonce_unfolded:
  "check_nonce L leaf_cert (PBytes ad) ch =
     (case nonce_extension leaf_cert of
        Inl e \<Rightarrow> if e = ExtensionNotFound then [NonceExtensionNotFound] else [NonceVerificationError e]
      | Inr payload \<Rightarrow>
          (case extract_nonce_from_extension payload of
             Inl e \<Rightarrow> if e = ExtensionNotFound then [NonceExtensionNotFound]
                      else [NonceVerificationError e]
           | Inr cert_nonce \<Rightarrow>
               if cert_nonce = sha256 L (ad @ ch) \<or> cert_nonce = sha256 L (ad @ sha256 L ch)
               then [] else [NonceMismatch]))"
  by (simp add: check_nonce_def nonce_handler_def Let_def split: sum.splits)

lemma verify_attestation_errors_unfolded:
  assumes "container_fields L s att att_stmt (PBytes ad) x5c n" "2 \<le> n" "55 \<le> length ad"
    "certificates_loaded L x5c leaf_cert intermediate root_ca" "key_extracted leaf_cert xb yb"
    "public_key root_ca = Inr root_pk" "signature_hash_algorithm intermediate = Inr int_alg"
    "public_key intermediate = Inr int_pk" "signature_hash_algorithm leaf_cert = Inr leaf_alg"
  shows "verify_attestation L s ch t b env =
     (let errs =
        (if take 32 ad \<noteq> sha256 L (encode (t @ ''.'' @ b)) then [RpIdHashMismatch] else [])
        @ (if ad ! 32 AND 0x40 = 0 then [ATFlagNotSet] else [])
        @ (if int_from_bytes_big (take 4 (drop 33 ad)) \<noteq> 0
           then [SignCountNotZero (int_from_bytes_big (take 4 (drop 33 ad)))] else [])
        @ (if take 16 (drop 37 ad)
                \<noteq> (if env = ''dev'' then encode ''appattestdevelop''
                     else encode ''appattest'' @ replicate 7 0x00)
           then [AaguidMismatch env] else [])
        @ (case ecdsa_verify L root_pk (PBytes (signature intermediate))
                  (tbs_certificate_bytes intermediate) int_alg of
             None \<Rightarrow> [] | Some e \<Rightarrow> [IntermediateSignatureInvalid e])
        @ (case ecdsa_verify L int_pk (PBytes (signature leaf_cert))
                  (tbs_certificate_bytes leaf_cert) leaf_alg of
             None \<Rightarrow> [] | Some e \<Rightarrow> [LeafSignatureInvalid e])
        @ (if take (int_from_bytes_big (take 2 (drop 53 ad))) (drop 55 ad)
                \<noteq> sha256 L ([0x04] @ xb @ yb)
           then [CredentialIdMismatch] else [])
        @ (case nonce_extension leaf_cert of
             Inl e \<Rightarrow> if e = ExtensionNotFound then [NonceExtensionNotFound]
                      else [NonceVerificationError e]
           | Inr payload \<Rightarrow>
               (case extract_nonce_from_extension payload of
                  Inl e \<Rightarrow> if e = ExtensionNotFound then [NonceExtensionNotFound]
                           else [NonceVerificationError e]
                | Inr cert_nonce \<Rightarrow>
                    if cert_nonce = sha256 L (ad @ ch) \<or> cert_nonce = sha256 L (ad @ sha256 L ch)
                    then [] else [NonceMismatch]))
      in \<lparr>ok = (errs = []), public_key_uncompressed = Some ([0x04] @ xb @ yb),
          public_key_x = Some xb, public_key_y = Some yb,
          key_id = Some (sha256 L ([0x04] @ xb @ yb)),
          key_id_b64 = Some (b64encode L (sha256 L ([0x04] @ xb @ yb))),
          credential_id = Some (take (int_from_bytes_big (take 2 (drop 53 ad))) (drop 55 ad)),
          errors = errs\<rparr>)"
proof -
  have pa: "parse_auth_data (PBytes ad) =
     Inr \<lparr>rp_id_hash = take 32 ad, flags = ad ! 32,
          sign_count = int_from_bytes_big (take 4 (drop 33 ad)),
          aaguid = take 16 (drop 37 ad),
          cred_id_len = int_from_bytes_big (take 2 (drop 53 ad)),
          cred_id = take (int_from_bytes_big (take 2 (drop 53 ad))) (drop 55 ad)\<rparr>"
    using assms(3) by (simp only: parse_auth_data.simps parse_auth_bytes_long)
  show ?thesis
    unfolding verify_attestation_all_checks[OF assms(1,2) pa assms(4,5)]
    by (simp add: Let_def check_rp_id_hash_def check_flags_def check_sign_count_def
        check_aaguid_def expected_aaguid_def check_intermediate_signature_def
        check_leaf_signature_def check_credential_id_def check_nonce_unfolded
        verify_signed_by_readable[OF assms(6,7)] verify_signed_by_readable[OF assms(8,9)]
        cong: sum.case_cong option.case_cong if_cong)
qed

text \<open>
  Claim C4. The \<open>ok\<close> flag of every result is true exactly when its \<open>errors\<close> list
  is empty. When the container is readable, the chain has at least two entries, the
  \<open>authData\<close> has its 55 bytes, the certificates load with readable keys and hash
  algorithms and the leaf key is an elliptic-curve key, the \<open>errors\<close> list is the
  concatenation, in this order, of the outcomes of the eight checks, each decided by
  its own condition on the input alone: rpIdHash against the digest of
  \<open>team_id.bundle_id\<close>, bit \<open>0x40\<close> of the flags, \<open>signCount\<close>, aaguid against the
  constant of the environment, the intermediate's signature under the root key, the
  leaf's signature under the intermediate's key, \<open>credentialId\<close> against the digest of
  the uncompressed point, and the nonce. So every check is performed whatever the
  others found: with \<open>signCount = 1\<close> as the only defect the list is exactly the
  \<open>signCount\<close> error, and when all eight conditions fail all eight errors are reported.
\<close>

theorem verify_attestation_accumulates:
  "(ok (verify_attestation L0 s0 ch0 t0 b0 env0)
      \<longleftrightarrow> errors (verify_attestation L0 s0 ch0 t0 b0 env0) = []) \<and>
   (container_fields L s att att_stmt (PBytes ad) x5c n \<and> 2 \<le> n \<and> 55 \<le> length ad \<and>
    certificates_loaded L x5c leaf_cert intermediate root_ca \<and> key_extracted leaf_cert xb yb \<and>
    public_key root_ca = Inr root_pk \<and> signature_hash_algorithm intermediate = Inr int_alg \<and>
    public_key intermediate = Inr int_pk \<and> signature_hash_algorithm leaf_cert = Inr leaf_alg \<longrightarrow>
      errors (verify_attestation L s ch t b env)
        = (if take 32 ad \<noteq> sha256 L (encode (t @ ''.'' @ b)) then [RpIdHashMismatch] else [])
          @ (if ad ! 32 AND 0x40 = 0 then [ATFlagNotSet] else [])
          @ (if int_from_bytes_big (take 4 (drop 33 ad)) \<noteq> 0
             then [SignCountNotZero (int_from_bytes_big (take 4 (drop 33 ad)))] else [])
          @ (if take 16 (drop 37 ad)
                  \<noteq> (if env = ''dev'' then encode ''appattestdevelop''
                       else encode ''appattest'' @ replicate 7 0x00)
             then [AaguidMismatch env] else [])
          @ (case ecdsa_verify L root_pk (PBytes (signature intermediate))
                    (tbs_certificate_bytes intermediate) int_alg of
               None \<Rightarrow> [] | Some e \<Rightarrow> [IntermediateSignatureInvalid e])
          @ (case ecdsa_verify L int_pk (PBytes (signature leaf_cert))
                    (tbs_certificate_bytes leaf_cert) leaf_alg of
               None \<Rightarrow> [] | Some e \<Rightarrow> [LeafSignatureInvalid e])
          @ (if take (int_from_bytes_big (take 2 (drop 53 ad))) (drop 55 ad)
                  \<noteq> sha256 L ([0x04] @ xb @ yb)
             then [CredentialIdMismatch] else [])
          @ (case nonce_extension leaf_cert of
               Inl e \<Rightarrow> if e = ExtensionNotFound then [NonceExtensionNotFound]
                        else [NonceVerificationError e]
             | Inr payload \<Rightarrow>
                 (case extract_nonce_from_extension payload of
                    Inl e \<Rightarrow> if e = ExtensionNotFound then [NonceExtensionNotFound]
                             else [NonceVerificationError e]
                  | Inr cert_nonce \<Rightarrow>
                      if cert_nonce = sha256 L (ad @ ch) \<or> cert_nonce = sha256 L (ad @ sha256 L ch)
                      then [] else [NonceMismatch])) \<and>
      (take 32 ad = sha256 L (encode (t @ ''.'' @ b)) \<and> ad ! 32 AND 0x40 \<noteq> 0 \<and>
       int_from_bytes_big (take 4 (drop 33 ad)) = 1 \<and>
       take 16 (drop 37 ad)
         = (if env = ''dev'' then encode ''appattestdevelop'' else encode ''appattest'' @ replicate 7 0x00) \<and>
       ecdsa_verify L root_pk (PBytes (signature intermediate))
         (tbs_certificate_bytes intermediate) int_alg = None \<and>
       ecdsa_verify L int_pk (PBytes (signature leaf_cert))
         (tbs_certificate_bytes leaf_cert) leaf_alg = None \<and>
       take (int_from_bytes_big (take 2 (drop 53 ad))) (drop 55 ad) = sha256 L ([0x04] @ xb @ yb) \<and>
       nonce_extension leaf_cert = Inr payload \<and>
       extract_nonce_from_extension payload = Inr cert_nonce \<and>
       (cert_nonce = sha256 L (ad @ ch) \<or> cert_nonce = sha256 L (ad @ sha256 L ch)) \<longrightarrow>
         verify_attestation L s ch t b env
           = \<lparr>ok = False, public_key_uncompressed = Some ([0x04] @ xb @ yb),
              public_key_x = Some xb, public_key_y = Some yb,
              key_id = Some (sha256 L ([0x04] @ xb @ yb)),
              key_id_b64 = Some (b64encode L (sha256 L ([0x04] @ xb @ yb))),
              credential_id = Some (sha256 L ([0x04] @ xb @ yb)),
              errors = [SignCountNotZero 1]\<rparr>) \<and>
      (take 32 ad \<noteq> sha256 L (encode (t @ ''.'' @ b)) \<and> ad ! 32 AND 0x40 = 0 \<and>
       int_from_bytes_big (take 4 (drop 33 ad)) \<noteq> 0 \<and>
       take 16 (drop 37 ad)
         \<noteq> (if env = ''dev'' then encode ''appattestdevelop'' else encode ''appattest'' @ replicate 7 0x00) \<and>
       ecdsa_verify L root_pk (PBytes (signature intermediate))
         (tbs_certificate_bytes intermediate) int_alg = Some e1 \<and>
       ecdsa_verify L int_pk (PBytes (signature leaf_cert))
         (tbs_certificate_bytes leaf_cert) leaf_alg = Some e2 \<and>
       take (int_from_bytes_big (take 2 (drop 53 ad))) (drop 55 ad) \<noteq> sha256 L ([0x04] @ xb @ yb) \<and>
       nonce_extension leaf_cert = Inr payload \<and>
       extract_nonce_from_extension payload = Inr cert_nonce \<and>
       cert_nonce \<noteq> sha256 L (ad @ ch) \<and> cert_nonce \<noteq> sha256 L (ad @ sha256 L ch) \<longrightarrow>
         errors (verify_attestation L s ch t b env)
           = [RpIdHashMismatch, ATFlagNotSet,
              SignCountNotZero (int_from_bytes_big (take 4 (drop 33 ad))), AaguidMismatch env,
              IntermediateSignatureInvalid e1, LeafSignatureInvalid e2,
              CredentialIdMismatch, NonceMismatch] \<and>
         \<not> ok (verify_attestation L s ch t b env)))"
proof (intro conjI impI)
  show "ok (verify_attestation L0 s0 ch0 t0 b0 env0)
      \<longleftrightarrow> errors (verify_attestation L0 s0 ch0 t0 b0 env0) = []"
    by (rule verify_ok_iff)
next
  assume h: "container_fields L s att att_stmt (PBytes ad) x5c n \<and> 2 \<le> n \<and> 55 \<le> length ad \<and>
    certificates_loaded L x5c leaf_cert intermediate root_ca \<and> key_extracted leaf_cert xb yb \<and>
    public_key root_ca = Inr root_pk \<and> signature_hash_algorithm intermediate = Inr int_alg \<and>
    public_key intermediate = Inr int_pk \<and> signature_hash_algorithm leaf_cert = Inr leaf_alg"
  note u = verify_attestation_errors_unfolded[of L s att att_stmt ad x5c n leaf_cert intermediate
      root_ca xb yb root_pk int_alg int_pk leaf_alg ch t b env]
  from h have r: "verify_attestation L s ch t b env =
     (let errs = (if take 32 ad \<noteq> sha256 L (encode (t @ ''.'' @ b)) then [RpIdHashMismatch] else [])
          @ (if ad ! 32 AND 0x40 = 0 then [ATFlagNotSet] else [])
          @ (if int_from_bytes_big (take 4 (drop 33 ad)) \<noteq> 0
             then [SignCountNotZero (int_from_bytes_big (take 4 (drop 33 ad)))] else [])
          @ (if take 16 (drop 37 ad)
                  \<noteq> (if env = ''dev'' then encode ''appattestdevelop''
                       else encode ''appattest'' @ replicate 7 0x00)
             then [AaguidMismatch env] else [])
          @ (case ecdsa_verify L root_pk (PBytes (signature intermediate))
                    (tbs_certificate_bytes intermediate) int_alg of
               None \<Rightarrow> [] | Some e \<Rightarrow> [IntermediateSignatureInvalid e])
          @ (case ecdsa_verify L int_pk (PBytes (signature leaf_cert))
                    (tbs_certificate_bytes leaf_cert) leaf_alg of
               None \<Rightarrow> [] | Some e \<Rightarrow> [LeafSignatureInvalid e])
          @ (if take (int_from_bytes_big (take 2 (drop 53 ad))) (drop 55 ad)
                  \<noteq> sha256 L ([0x04] @ xb @ yb)
             then [CredentialIdMismatch] else [])
          @ (case nonce_extension leaf_cert of
               Inl e \<Rightarrow> if e = ExtensionNotFound then [NonceExtensionNotFound]
                        else [NonceVerificationError e]
             | Inr payload \<Rightarrow>
                 (case extract_nonce_from_extension payload of
                    Inl e \<Rightarrow> if e = ExtensionNotFound then [NonceExtensionNotFound]
                             else [NonceVerificationError e]
                  | Inr cert_nonce \<Rightarrow>
                      if cert_nonce = sha256 L (ad @ ch) \<or> cert_nonce = sha256 L (ad @ sha256 L ch)
                      then [] else [NonceMismatch]))
      in \<lparr>ok = (errs = []), public_key_uncompressed = Some ([0x04] @ xb @ yb),
          public_key_x = Some xb, public_key_y = Some yb,
          key_id = Some (sha256 L ([0x04] @ xb @ yb)),
          key_id_b64 = Some (b64encode L (sha256 L ([0x04] @ xb @ yb))),
          credential_id = Some (take (int_from_bytes_big (take 2 (drop 53 ad))) (drop 55 ad)),
          errors = errs\<rparr>)"
    by (intro u) simp_all
  show "errors (verify_attestation L s ch t b env)
        = (if take 32 ad \<noteq> sha256 L (encode (t @ ''.'' @ b)) then [RpIdHashMismatch] else [])
          @ (if ad ! 32 AND 0x40 = 0 then [ATFlagNotSet] else [])
          @ (if int_from_bytes_big (take 4 (drop 33 ad)) \<noteq> 0
             then [SignCountNotZero (int_from_bytes_big (take 4 (drop 33 ad)))] else [])
          @ (if take 16 (drop 37 ad)
                  \<noteq> (if env = ''dev'' then encode ''appattestdevelop''
                       else encode ''appattest'' @ replicate 7 0x00)
             then [AaguidMismatch env] else [])
          @ (case ecdsa_verify L root_pk (PBytes (signature intermediate))
                    (tbs_certificate_bytes intermediate) int_alg of
               None \<Rightarrow> [] | Some e \<Rightarrow> [IntermediateSignatureInvalid e])
          @ (case ecdsa_verify L int_pk (PBytes (signature leaf_cert))
                    (tbs_certificate_bytes leaf_cert) leaf_alg of
               None \<Rightarrow> [] | Some e \<Rightarrow> [LeafSignatureInvalid e])
          @ (if take (int_from_bytes_big (take 2 (drop 53 ad))) (drop 55 ad)
                  \<noteq> sha256 L ([0x04] @ xb @ yb)
             then [CredentialIdMismatch] else [])
          @ (case nonce_extension leaf_cert of
               Inl e \<Rightarrow> if e = ExtensionNotFound then [NonceExtensionNotFound]
                        else [NonceVerificationError e]
             | Inr payload \<Rightarrow>
                 (case extract_nonce_from_extension payload of
                    Inl e \<Rightarrow> if e = ExtensionNotFound then [NonceExtensionNotFound]
                             else [NonceVerificationError e]
                  | Inr cert_nonce \<Rightarrow>
                      if cert_nonce = sha256 L (ad @ ch) \<or> cert_nonce = sha256 L (ad @ sha256 L ch)
                      then [] else [NonceMismatch]))"
    unfolding r by (simp add: Let_def)
  {
    assume "take 32 ad = sha256 L (encode (t @ ''.'' @ b)) \<and> ad ! 32 AND 0x40 \<noteq> 0 \<and>
       int_from_bytes_big (take 4 (drop 33 ad)) = 1 \<and>
       take 16 (drop 37 ad)
         = (if env = ''dev'' then encode ''appattestdevelop'' else encode ''appattest'' @ replicate 7 0x00) \<and>
       ecdsa_verify L root_pk (PBytes (signature intermediate))
         (tbs_certificate_bytes intermediate) int_alg = None \<and>
       ecdsa_verify L int_pk (PBytes (signature leaf_cert))
         (tbs_certificate_bytes leaf_cert) leaf_alg = None \<and>
       take (int_from_bytes_big (take 2 (drop 53 ad))) (drop 55 ad) = sha256 L ([0x04] @ xb @ yb) \<and>
       nonce_extension leaf_cert = Inr payload \<and>
       extract_nonce_from_extension payload = Inr cert_nonce \<and>
       (cert_nonce = sha256 L (ad @ ch) \<or> cert_nonce = sha256 L (ad @ sha256 L ch))"
    then show "verify_attestation L s ch t b env
           = \<lparr>ok = False, public_key_uncompressed = Some ([0x04] @ xb @ yb),
              public_key_x = Some xb, public_key_y = Some yb,
              key_id = Some (sha256 L ([0x04] @ xb @ yb)),
              key_id_b64 = Some (b64encode L (sha256 L ([0x04] @ xb @ yb))),
              credential_id = Some (sha256 L ([0x04] @ xb @ yb)),
              errors = [SignCountNotZero 1]\<rparr>"
      unfolding r by (simp add: Let_def)
  }
  {
    assume a: "take 32 ad \<noteq> sha256 L (encode (t @ ''.'' @ b)) \<and> ad ! 32 AND 0x40 = 0 \<and>
       int_from_bytes_big (take 4 (drop 33 ad)) \<noteq> 0 \<and>
       take 16 (drop 37 ad)
         \<noteq> (if env = ''dev'' then encode ''appattestdevelop'' else encode ''appattest'' @ replicate 7 0x00) \<and>
       ecdsa_verify L root_pk (PBytes (signature intermediate))
         (tbs_certificate_bytes intermediate) int_alg = Some e1 \<and>
       ecdsa_verify L int_pk (PBytes (signature leaf_cert))
         (tbs_certificate_bytes leaf_cert) leaf_alg = Some e2 \<and>
       take (int_from_bytes_big (take 2 (drop 53 ad))) (drop 55 ad) \<noteq> sha256 L ([0x04] @ xb @ yb) \<and>
       nonce_extension leaf_cert = Inr payload \<and>
       extract_nonce_from_extension payload = Inr cert_nonce \<and>
       cert_nonce \<noteq> sha256 L (ad @ ch) \<and> cert_nonce \<noteq> sha256 L (ad @ sha256 L ch)"
    then show "errors (verify_attestation L s ch t b env)
           = [RpIdHashMismatch, ATFlagNotSet,
              SignCountNotZero (int_from_bytes_big (take 4 (drop 33 ad))), AaguidMismatch env,
              IntermediateSignatureInvalid e1, LeafSignatureInvalid e2,
              CredentialIdMismatch, NonceMismatch]"
      unfolding r by (simp add: Let_def)
    from a show "\<not> ok (verify_attestation L s ch t b env)"
      unfolding r by (simp add: Let_def)
  }
qed

lemma auth_data_slices:
  assumes "length rp = 32" "length c4 = 4" "length ag = 16"
  shows "take 32 (rp @ [fl] @ c4 @ ag @ [hi, lo] @ cred) = rp"
    "(rp @ [fl] @ c4 @ ag @ [hi, lo] @ cred) ! 32 = fl"
    "take 4 (drop 33 (rp @ [fl] @ c4 @ ag @ [hi, lo] @ cred)) = c4"
    "take 16 (drop 37 (rp @ [fl] @ c4 @ ag @ [hi, lo] @ cred)) = ag"
    "take 2 (drop 53 (rp @ [fl] @ c4 @ ag @ [hi, lo] @ cred)) = [hi, lo]"
    "drop 55 (rp @ [fl] @ c4 @ ag @ [hi, lo] @ cred) = cred"
  using assms by (simp_all add: nth_append)

lemma sample_auth_data_slices:
  "take 32 (sample_auth_data sc n) = sample_digest (encode ''T.B'')"
  "sample_auth_data sc n ! 32 = 0x40"
  "take 4 (drop 33 (sample_auth_data sc n)) = [0, 0, 0, of_nat sc]"
  "take 16 (drop 37 (sample_auth_data sc n)) = encode ''appattestdevelop''"
  "take 2 (drop 53 (sample_auth_data sc n)) = [0, of_nat n]"
  "drop 55 (sample_auth_data sc n) = sample_key_id"
  unfolding sample_auth_data_def
  by (rule auth_data_slices; simp add: encode_def)+

lemma sample_bad_auth_data_slices:
  "take 32 sample_bad_auth_data = replicate 32 0"
  "sample_bad_auth_data ! 32 = 0x00"
  "take 4 (drop 33 sample_bad_auth_data) = [0, 0, 0, 1]"
  "take 16 (drop 37 sample_bad_auth_data) = replicate 16 0"
  "take 2 (drop 53 sample_bad_auth_data) = [0, 32]"
  "drop 55 sample_bad_auth_data = replicate 32 0"
  unfolding sample_bad_auth_data_def
  by (rule auth_data_slices; simp)+

lemma length_sample_bad_auth_data: "length sample_bad_auth_data = 87"
  by (simp add: sample_bad_auth_data_def)

lemma sample_bad_container_fields:
  "container_fields sample_bad_attestation ''QQ'' (sample_container sample_chain sample_bad_auth_data)
     (PDict [(PStr ''x5c'', PList sample_chain)]) (PBytes sample_bad_auth_data) (PList sample_chain) 2"
  by (simp add: container_fields_def sample_bad_attestation_def sample_library_def
      sample_container_def encode_def dict_lookup_def sample_chain_def)

lemma sample_bad_certificates_loaded:
  "certificates_loaded sample_bad_attestation (PList sample_chain)
     sample_bad_leaf sample_bad_intermediate sample_root"
  by (simp add: certificates_loaded_def sample_bad_attestation_def sample_library_def
      sample_bad_certs_def sample_chain_def)

lemma sample_bad_key_extracted:
  "key_extracted sample_bad_leaf (replicate 31 0 @ [1]) (replicate 31 0 @ [2])"
  using int_to_bytes_big_small[of 1] int_to_bytes_big_small[of 2]
  by (simp add: key_extracted_def sample_bad_leaf_def)

lemma sample_digest_not_short: "[0] \<noteq> sample_digest bs"
proof
  assume "[0] = sample_digest bs"
  then have "length [0::byte] = length (sample_digest bs)" by simp
  then show False by simp
qed

lemma sample_digest_not_text: "replicate 16 0 \<noteq> encode ''appattestdevelop''"
proof
  assume "replicate 16 0 = encode ''appattestdevelop''"
  then have "replicate 16 (0::byte) ! 0 = encode ''appattestdevelop'' ! 0" by simp
  then show False by (simp add: encode_def)
qed

theorem verify_attestation_accumulates_witness:
  "container_fields (sample_attestation sample_chain (sample_auth_data 1 32) (good_leaf 1 32)) ''QQ''
     (sample_container sample_chain (sample_auth_data 1 32))
     (PDict [(PStr ''x5c'', PList sample_chain)]) (PBytes (sample_auth_data 1 32))
     (PList sample_chain) 2 \<and>
   55 \<le> length (sample_auth_data 1 32) \<and>
   certificates_loaded (sample_attestation sample_chain (sample_auth_data 1 32) (good_leaf 1 32))
     (PList sample_chain) (good_leaf 1 32) sample_intermediate sample_root \<and>
   key_extracted (good_leaf 1 32) (replicate 31 0 @ [1]) (replicate 31 0 @ [2]) \<and>
   int_from_bytes_big (take 4 (drop 33 (sample_auth_data 1 32))) = 1 \<and>
   verify_attestation (sample_attestation sample_chain (sample_auth_data 1 32) (good_leaf 1 32))
       ''QQ'' [0x63] ''T'' ''B'' ''dev''
     = \<lparr>ok = False,
        public_key_uncompressed = Some ([0x04] @ (replicate 31 0 @ [1]) @ (replicate 31 0 @ [2])),
        public_key_x = Some (replicate 31 0 @ [1]), public_key_y = Some (replicate 31 0 @ [2]),
        key_id = Some (sample_digest ([0x04] @ (replicate 31 0 @ [1]) @ (replicate 31 0 @ [2]))),
        key_id_b64 = Some (b64encode
           (sample_attestation sample_chain (sample_auth_data 1 32) (good_leaf 1 32))
           (sample_digest ([0x04] @ (replicate 31 0 @ [1]) @ (replicate 31 0 @ [2])))),
        credential_id = Some (sample_digest ([0x04] @ (replicate 31 0 @ [1]) @ (replicate 31 0 @ [2]))),
        errors = [SignCountNotZero 1]\<rparr> \<and>
   container_fields sample_bad_attestation ''QQ''
     (sample_container sample_chain sample_bad_auth_data)
     (PDict [(PStr ''x5c'', PList sample_chain)]) (PBytes sample_bad_auth_data)
     (PList sample_chain) 2 \<and>
   55 \<le> length sample_bad_auth_data \<and>
   certificates_loaded sample_bad_attestation (PList sample_chain)
     sample_bad_leaf sample_bad_intermediate sample_root \<and>
   key_extracted sample_bad_leaf (replicate 31 0 @ [1]) (replicate 31 0 @ [2]) \<and>
   errors (verify_attestation sample_bad_attestation ''QQ'' [0x63] ''T'' ''B'' ''dev'')
     = [RpIdHashMismatch, ATFlagNotSet, SignCountNotZero 1, AaguidMismatch ''dev'',
        IntermediateSignatureInvalid InvalidSignature, LeafSignatureInvalid InvalidSignature,
        CredentialIdMismatch, NonceMismatch] \<and>
   \<not> ok (verify_attestation sample_bad_attestation ''QQ'' [0x63] ''T'' ''B'' ''dev'')"
proof -
  let ?ad = "sample_auth_data 1 32"
  let ?leaf = "good_leaf 1 32"
  let ?L = "sample_attestation sample_chain ?ad ?leaf"
  let ?xb = "replicate 31 0 @ [1::byte]"
  let ?yb = "replicate 31 0 @ [2::byte]"
  let ?B = sample_bad_attestation
  let ?bad = sample_bad_auth_data
  let ?n0 = "replicate 32 (0::byte)"
  have l: "length sample_chain = 2" by (simp add: sample_chain_def)
  have two: "(2::nat) \<le> 2" by simp
  \<comment> \<open>the attestation whose only defect is the counter\<close>
  have cf: "container_fields ?L ''QQ'' (sample_container sample_chain ?ad)
     (PDict [(PStr ''x5c'', PList sample_chain)]) (PBytes ?ad) (PList sample_chain) 2"
    using sample_container_fields[of sample_chain ?ad ?leaf] by (simp only: l)
  have len: "55 \<le> length ?ad" by (simp add: length_sample_auth_data)
  have cl: "certificates_loaded ?L (PList sample_chain) ?leaf sample_intermediate sample_root"
    unfolding sample_chain_def by (rule sample_certificates_loaded)
  have ke: "key_extracted ?leaf ?xb ?yb"
    unfolding good_leaf_def by (rule sample_key_extracted)
  have k1: "public_key sample_root = Inr (EllipticCurvePublicKey 7 8)"
    by (simp add: sample_root_def)
  have k2: "signature_hash_algorithm sample_intermediate = Inr ''sha384''"
    by (simp add: sample_intermediate_def)
  have k3: "public_key sample_intermediate = Inr (EllipticCurvePublicKey 9 10)"
    by (simp add: sample_intermediate_def)
  have k4: "signature_hash_algorithm ?leaf = Inr ''sha256''"
    by (simp add: good_leaf_def sample_leaf_def)
  have a1: "take 32 ?ad = sha256 ?L (encode (''T'' @ ''.'' @ ''B''))"
    by (simp add: sample_auth_data_slices)
  have a2: "?ad ! 32 AND 0x40 \<noteq> 0" by (simp add: sample_auth_data_slices)
  have a3: "int_from_bytes_big (take 4 (drop 33 ?ad)) = 1"
    by (simp add: sample_auth_data_slices int_from_bytes_big_def)
  have a4: "take 16 (drop 37 ?ad)
      = (if ''dev'' = ''dev'' then encode ''appattestdevelop'' else encode ''appattest'' @ replicate 7 0x00)"
    by (simp add: sample_auth_data_slices)
  have a5: "ecdsa_verify ?L (EllipticCurvePublicKey 7 8) (PBytes (signature sample_intermediate))
      (tbs_certificate_bytes sample_intermediate) ''sha384'' = None"
    by (simp add: sample_intermediate_def sample_verify_def)
  have a6: "ecdsa_verify ?L (EllipticCurvePublicKey 9 10) (PBytes (signature ?leaf))
      (tbs_certificate_bytes ?leaf) ''sha256'' = None"
    by (simp add: good_leaf_def sample_leaf_def sample_verify_def)
  have a7: "take (int_from_bytes_big (take 2 (drop 53 ?ad))) (drop 55 ?ad) = sha256 ?L ([0x04] @ ?xb @ ?yb)"
    by (simp add: sample_auth_data_slices int_from_bytes_big_def length_sample_key_id)
       (simp add: sample_key_id_def)
  have a8: "nonce_extension ?leaf = Inr (sample_nonce_payload (sample_digest (?ad @ [0x63])))"
    by (simp add: good_leaf_def sample_leaf_def)
  have a9: "extract_nonce_from_extension (sample_nonce_payload (sample_digest (?ad @ [0x63])))
      = Inr (sample_digest (?ad @ [0x63]))"
    by (rule sample_extract) simp
  have a10: "sample_digest (?ad @ [0x63]) = sha256 ?L (?ad @ [0x63]) \<or>
      sample_digest (?ad @ [0x63]) = sha256 ?L (?ad @ sha256 ?L [0x63])"
    by simp
  note t = verify_attestation_accumulates[where L = ?L and s = "''QQ''" and ch = "[0x63]"
      and t = "''T''" and b = "''B''" and env = "''dev''" and att = "sample_container sample_chain ?ad"
      and att_stmt = "PDict [(PStr ''x5c'', PList sample_chain)]" and ad = ?ad
      and ?x5c.0 = "PList sample_chain" and n = 2 and leaf_cert = ?leaf
      and intermediate = sample_intermediate and root_ca = sample_root and xb = ?xb and yb = ?yb
      and root_pk = "EllipticCurvePublicKey 7 8" and int_alg = "''sha384''"
      and int_pk = "EllipticCurvePublicKey 9 10" and leaf_alg = "''sha256''"
      and payload = "sample_nonce_payload (sample_digest (?ad @ [0x63]))"
      and cert_nonce = "sample_digest (?ad @ [0x63])"]
  from t cf two len cl ke k1 k2 k3 k4 a1 a2 a3 a4 a5 a6 a7 a8 a9 a10
  have r: "verify_attestation ?L ''QQ'' [0x63] ''T'' ''B'' ''dev''
     = \<lparr>ok = False, public_key_uncompressed = Some ([0x04] @ ?xb @ ?yb),
        public_key_x = Some ?xb, public_key_y = Some ?yb,
        key_id = Some (sha256 ?L ([0x04] @ ?xb @ ?yb)),
        key_id_b64 = Some (b64encode ?L (sha256 ?L ([0x04] @ ?xb @ ?yb))),
        credential_id = Some (sha256 ?L ([0x04] @ ?xb @ ?yb)),
        errors = [SignCountNotZero 1]\<rparr>"
    by blast
  have r': "verify_attestation ?L ''QQ'' [0x63] ''T'' ''B'' ''dev''
     = \<lparr>ok = False, public_key_uncompressed = Some ([0x04] @ ?xb @ ?yb),
        public_key_x = Some ?xb, public_key_y = Some ?yb,
        key_id = Some (sample_digest ([0x04] @ ?xb @ ?yb)),
        key_id_b64 = Some (b64encode ?L (sample_digest ([0x04] @ ?xb @ ?yb))),
        credential_id = Some (sample_digest ([0x04] @ ?xb @ ?yb)),
        errors = [SignCountNotZero 1]\<rparr>"
    using r by (simp only: sample_sha256)
  \<comment> \<open>the attestation in which every check fails\<close>
  have sB: "sha256 ?B = sample_digest" and eB: "ecdsa_verify ?B = sample_verify"
    by (simp_all add: sample_bad_attestation_def sample_library_def)
  have lenB: "55 \<le> length ?bad" by (simp add: length_sample_bad_auth_data)
  have j2: "signature_hash_algorithm sample_bad_intermediate = Inr ''sha384''"
    by (simp add: sample_bad_intermediate_def)
  have j3: "public_key sample_bad_intermediate = Inr (EllipticCurvePublicKey 9 10)"
    by (simp add: sample_bad_intermediate_def)
  have j4: "signature_hash_algorithm sample_bad_leaf = Inr ''sha256''"
    by (simp add: sample_bad_leaf_def)
  have b1: "take 32 ?bad \<noteq> sha256 ?B (encode (''T'' @ ''.'' @ ''B''))"
    by (simp only: sample_bad_auth_data_slices sB sample_digest_not_constant not_False_eq_True)
  have b2: "?bad ! 32 AND 0x40 = 0" by (simp add: sample_bad_auth_data_slices)
  have b3: "int_from_bytes_big (take 4 (drop 33 ?bad)) = 1"
    by (simp add: sample_bad_auth_data_slices int_from_bytes_big_def)
  then have b3': "int_from_bytes_big (take 4 (drop 33 ?bad)) \<noteq> 0" by simp
  have b4: "take 16 (drop 37 ?bad)
      \<noteq> (if ''dev'' = ''dev'' then encode ''appattestdevelop'' else encode ''appattest'' @ replicate 7 0x00)"
    using sample_digest_not_text by (simp add: sample_bad_auth_data_slices)
  have b5: "ecdsa_verify ?B (EllipticCurvePublicKey 7 8) (PBytes (signature sample_bad_intermediate))
      (tbs_certificate_bytes sample_bad_intermediate) ''sha384'' = Some InvalidSignature"
    by (simp add: eB sample_bad_intermediate_def sample_verify_def sample_digest_not_short)
  have b6: "ecdsa_verify ?B (EllipticCurvePublicKey 9 10) (PBytes (signature sample_bad_leaf))
      (tbs_certificate_bytes sample_bad_leaf) ''sha256'' = Some InvalidSignature"
    by (simp add: eB sample_bad_leaf_def sample_verify_def sample_digest_not_short)
  have b7: "take (int_from_bytes_big (take 2 (drop 53 ?bad))) (drop 55 ?bad)
      \<noteq> sha256 ?B ([0x04] @ ?xb @ ?yb)"
  proof -
    have "take (int_from_bytes_big (take 2 (drop 53 ?bad))) (drop 55 ?bad) = ?n0"
      by (simp add: sample_bad_auth_data_slices int_from_bytes_big_def)
    then show ?thesis by (simp only: sB sample_digest_not_constant not_False_eq_True)
  qed
  have b8: "nonce_extension sample_bad_leaf = Inr (sample_nonce_payload ?n0)"
    by (simp add: sample_bad_leaf_def)
  have b9: "extract_nonce_from_extension (sample_nonce_payload ?n0) = Inr ?n0"
    by (rule sample_extract) simp
  have b10: "?n0 \<noteq> sha256 ?B (?bad @ [0x63])" "?n0 \<noteq> sha256 ?B (?bad @ sha256 ?B [0x63])"
    by (simp_all only: sB sample_digest_not_constant not_False_eq_True)
  note u = verify_attestation_accumulates[where L = ?B and s = "''QQ''" and ch = "[0x63]"
      and t = "''T''" and b = "''B''" and env = "''dev''" and att = "sample_container sample_chain ?bad"
      and att_stmt = "PDict [(PStr ''x5c'', PList sample_chain)]" and ad = ?bad
      and ?x5c.0 = "PList sample_chain" and n = 2 and leaf_cert = sample_bad_leaf
      and intermediate = sample_bad_intermediate and root_ca = sample_root and xb = ?xb and yb = ?yb
      and root_pk = "EllipticCurvePublicKey 7 8" and int_alg = "''sha384''"
      and int_pk = "EllipticCurvePublicKey 9 10" and leaf_alg = "''sha256''"
      and payload = "sample_nonce_payload ?n0" and cert_nonce = ?n0
      and ?e1.0 = InvalidSignature and ?e2.0 = InvalidSignature]
  from u sample_bad_container_fields two lenB sample_bad_certificates_loaded sample_bad_key_extracted
    k1 j2 j3 j4 b1 b2 b3' b4 b5 b6 b7 b8 b9 b10
  have q: "errors (verify_attestation ?B ''QQ'' [0x63] ''T'' ''B'' ''dev'')
           = [RpIdHashMismatch, ATFlagNotSet,
              SignCountNotZero (int_from_bytes_big (take 4 (drop 33 ?bad))), AaguidMismatch ''dev'',
              IntermediateSignatureInvalid InvalidSignature, LeafSignatureInvalid InvalidSignature,
              CredentialIdMismatch, NonceMismatch] \<and>
         \<not> ok (verify_attestation ?B ''QQ'' [0x63] ''T'' ''B'' ''dev'')"
    by blast
  then have q1: "errors (verify_attestation ?B ''QQ'' [0x63] ''T'' ''B'' ''dev'')
     = [RpIdHashMismatch, ATFlagNotSet, SignCountNotZero 1, AaguidMismatch ''dev'',
        IntermediateSignatureInvalid InvalidSignature, LeafSignatureInvalid InvalidSignature,
        CredentialIdMismatch, NonceMismatch]"
    and q2: "\<not> ok (verify_attestation ?B ''QQ'' [0x63] ''T'' ''B'' ''dev'')"
    unfolding b3 by blast+
  show ?thesis
    by (intro conjI cf len cl ke a3 r' sample_bad_container_fields lenB
        sample_bad_certificates_loaded sample_bad_key_extracted q1 q2)
qed

lemma load_p256_public_key_header:
  "length x = 32 \<Longrightarrow> length y = 32 \<Longrightarrow>
   load_p256_public_key (p256_spki_header @ x @ y)
     = (if on_p256 (int_from_bytes_big x) (int_from_bytes_big y) then Some (x, y) else None)"
  by (simp add: load_p256_public_key_def length_p256_spki_header)

lemma p256_gx_value:
  "int_from_bytes_big p256_gx = 0x6b17d1f2e12c4247f8bce6e563a440f277037d812deb33a0f4a13945d898c296"
  by (simp add: p256_gx_def int_from_bytes_big_def)

lemma p256_gy_value:
  "int_from_bytes_big p256_gy = 0x4fe342e2fe1a7f9b8ee7eb4a7c0f9e162bce33576b315ececbb6406837bf51f5"
  by (simp add: p256_gy_def int_from_bytes_big_def)

lemma base_point_on_p256: "on_p256 (int_from_bytes_big p256_gx) (int_from_bytes_big p256_gy)"
  unfolding p256_gx_value p256_gy_value by (simp add: on_p256_def p256_p_def p256_b_def)

lemma off_curve_x_value:
  "int_from_bytes_big off_curve_x = 0x1111111111111111111111111111111111111111111111111111111111111111"
  by (simp add: off_curve_x_def int_from_bytes_big_def)

lemma off_curve_y_value:
  "int_from_bytes_big off_curve_y = 0x2222222222222222222222222222222222222222222222222222222222222222"
  by (simp add: off_curve_y_def int_from_bytes_big_def)

lemma off_curve_not_on_p256:
  "\<not> on_p256 (int_from_bytes_big off_curve_x) (int_from_bytes_big off_curve_y)"
  unfolding off_curve_x_value off_curve_y_value by (simp add: on_p256_def p256_p_def p256_b_def)

text \<open>
  Claim C7, as the code and the standard have it. For all 32-byte coordinates \<open>x\<close> and
  \<open>y\<close>, \<open>build_der_public_key x y\<close> returns the SubjectPublicKeyInfo made of the fixed
  P-256 header (outer SEQUENCE, algorithm identifier with the two OIDs, BIT STRING
  with a leading zero byte, point marker \<open>0x04\<close>) followed by \<open>x\<close> and \<open>y\<close>. A
  standard parser reads \<open>(x, y)\<close> back from it when the point is on the P-256 curve
  and rejects it otherwise. \<open>der_len\<close> encodes a length below 128 in one byte, a
  length from 128 to 255 as \<open>0x81\<close> and one byte, and a length from 256 to 65535 as
  \<open>0x82\<close> and two big-endian bytes.
\<close>

theorem build_der_public_key_roundtrip:
  "(length x = 32 \<and> length y = 32 \<longrightarrow>
      build_der_public_key x y = Inr (p256_spki_header @ x @ y) \<and>
      (\<exists>der. build_der_public_key x y = Inr der \<and> length der = 91 \<and>
             load_p256_public_key der
               = (if on_p256 (int_from_bytes_big x) (int_from_bytes_big y)
                  then Some (x, y) else None))) \<and>
   (n1 < 128 \<longrightarrow> der_len n1 = Inr [of_nat n1]) \<and>
   (128 \<le> n2 \<and> n2 < 256 \<longrightarrow> der_len n2 = Inr [0x81, of_nat n2]) \<and>
   (256 \<le> n3 \<and> n3 < 65536 \<longrightarrow>
      der_len n3 = Inr [0x82, of_nat (n3 div 256), of_nat (n3 mod 256)])"
proof (intro conjI impI)
  assume xy: "length x = 32 \<and> length y = 32"
  then show b: "build_der_public_key x y = Inr (p256_spki_header @ x @ y)"
    by (simp add: build_der_public_key_p256)
  have "length (p256_spki_header @ x @ y) = 91"
    using xy by (simp add: length_p256_spki_header)
  moreover have "load_p256_public_key (p256_spki_header @ x @ y)
      = (if on_p256 (int_from_bytes_big x) (int_from_bytes_big y) then Some (x, y) else None)"
    using xy by (simp only: load_p256_public_key_header)
  ultimately show "\<exists>der. build_der_public_key x y = Inr der \<and> length der = 91 \<and>
      load_p256_public_key der
        = (if on_p256 (int_from_bytes_big x) (int_from_bytes_big y) then Some (x, y) else None)"
    using b by blast
next
  assume "n1 < 128"
  then show "der_len n1 = Inr [of_nat n1]" by (rule der_len_short)
next
  assume "128 \<le> n2 \<and> n2 < 256"
  then show "der_len n2 = Inr [0x81, of_nat n2]" by (simp add: der_len_one_byte)
next
  assume "256 \<le> n3 \<and> n3 < 65536"
  then show "der_len n3 = Inr [0x82, of_nat (n3 div 256), of_nat (n3 mod 256)]"
    by (simp add: der_len_two_bytes)
qed

theorem build_der_public_key_roundtrip_witness:
  "length p256_gx = 32 \<and> length p256_gy = 32 \<and>
   build_der_public_key p256_gx p256_gy = Inr (p256_spki_header @ p256_gx @ p256_gy) \<and>
   load_p256_public_key (p256_spki_header @ p256_gx @ p256_gy) = Some (p256_gx, p256_gy) \<and>
   (66::nat) < 128 \<and> der_len 66 = Inr [0x42] \<and>
   (128::nat) \<le> 200 \<and> (200::nat) < 256 \<and> der_len 200 = Inr [0x81, 0xc8] \<and>
   (256::nat) \<le> 1000 \<and> (1000::nat) < 65536 \<and> der_len 1000 = Inr [0x82, 0x03, 0xe8]"
proof -
  note t = build_der_public_key_roundtrip[of p256_gx p256_gy 66 200 1000]
  have lx: "length p256_gx = 32" by (simp add: p256_gx_def)
  have ly: "length p256_gy = 32" by (simp add: p256_gy_def)
  from t lx ly have b: "build_der_public_key p256_gx p256_gy = Inr (p256_spki_header @ p256_gx @ p256_gy)"
    by blast
  from t lx ly obtain der where d: "build_der_public_key p256_gx p256_gy = Inr der"
    "load_p256_public_key der
       = (if on_p256 (int_from_bytes_big p256_gx) (int_from_bytes_big p256_gy)
          then Some (p256_gx, p256_gy) else None)"
    by blast
  from d(1) b have "der = p256_spki_header @ p256_gx @ p256_gy" by simp
  with d(2) have l: "load_p256_public_key (p256_spki_header @ p256_gx @ p256_gy)
      = Some (p256_gx, p256_gy)"
    by (simp only: base_point_on_p256 if_True)
  have n1: "(66::nat) < 128" and n2: "(128::nat) \<le> 200" "(200::nat) < 256"
    and n3: "(256::nat) \<le> 1000" "(1000::nat) < 65536" by simp_all
  from t n1 have d1: "der_len 66 = Inr [0x42]" by simp
  from t n2 have d2: "der_len 200 = Inr [0x81, 0xc8]" by simp
  from t n3 have d3: "der_len 1000 = Inr [0x82, 0x03, 0xe8]" by simp
  show ?thesis by (intro conjI lx ly b l n1 d1 n2 d2 n3 d3)
qed

theorem off_curve_key_is_rejected:
  "length off_curve_x = 32 \<and> length off_curve_y = 32 \<and>
   build_der_public_key off_curve_x off_curve_y
     = Inr (p256_spki_header @ off_curve_x @ off_curve_y) \<and>
   load_p256_public_key (p256_spki_header @ off_curve_x @ off_curve_y) = None"
proof -
  have lx: "length off_curve_x = 32" by (simp add: off_curve_x_def)
  have ly: "length off_curve_y = 32" by (simp add: off_curve_y_def)
  have b: "build_der_public_key off_curve_x off_curve_y
     = Inr (p256_spki_header @ off_curve_x @ off_curve_y)"
    by (rule build_der_public_key_p256[OF lx ly])
  have l: "load_p256_public_key (p256_spki_header @ off_curve_x @ off_curve_y) = None"
    by (simp only: load_p256_public_key_header[OF lx ly] off_curve_not_on_p256 if_False)
  show ?thesis by (intro conjI lx ly b l)
qed

end
